theory Spec2Isabelle
  imports Main
begin

section \<open>Values of the Python program\<close>

text \<open>
  The exceptions that the two modules can end with. \<open>AO3Error\<close> stands for any exception
  of the archive client (transport, authentication, parsing), identified by its message;
  the others are raised by the Python runtime itself: a division by zero, a quotient that is
  too large for a float, iterating over \<open>None\<close>, \<open>time.sleep\<close> with a negative length,
  reading a local variable that was never assigned.
\<close>

datatype py_error =
    ZeroDivisionError
  | OverflowError
  | TypeError
  | ValueError
  | UnboundLocalError
  | AO3Error string

text \<open>The session is an opaque token of the archive client, passed through unchanged.\<close>

typedecl session

text \<open>\<open>AO3.utils.Constraint(lowerbound, upperbound)\<close>; the upper bound may be \<open>None\<close>.\<close>

datatype constraint = Constraint (lowerbound: int) (upperbound: "int option")

text \<open>A work of a result page, with the three attribute lists that are read from it.\<close>

record work =
  work_tags :: "string list"
  work_relationships :: "string list"
  work_characters :: "string list"

text \<open>An \<open>AO3.Search\<close> object after \<open>update()\<close>: the total of the query and one page of works.\<close>

record page =
  total_results :: int
  results :: "work list"

text \<open>
  The keyword arguments of \<open>AO3.Search(...)\<close>, one field for each keyword that the two
  modules use. A keyword that a call leaves out holds the value that \<open>Fandom.search\<close>
  has as default for it (\<open>None\<close>, the empty string, page 1).
\<close>

record query =
  kw_fandoms :: string
  kw_single_chapter :: bool
  kw_word_count :: "constraint option"
  kw_language :: string
  kw_hits :: "constraint option"
  kw_bookmarks :: "constraint option"
  kw_comments :: "constraint option"
  kw_crossover :: "bool option"
  kw_completion_status :: "bool option"
  kw_revised_at :: string
  kw_relationships :: string
  kw_characters :: string
  kw_tags :: string
  kw_session :: "session option"
  kw_rating :: "int option"
  kw_warnings :: "int list option"
  kw_sort_column :: string
  kw_sort_direction :: string
  kw_page :: int

text \<open>
  The archive is the external collaborator. Its answer to the \<open>n\<close>-th request of a run
  may depend on \<open>n\<close> (the archive changes, the network fails) and on the query: a page, or
  the exception that \<open>update()\<close> raises. Every request is written to a log with its
  answer, so that the number and the content of the requests of a run can be stated.
\<close>

type_synonym archive = "nat \<Rightarrow> query \<Rightarrow> py_error + page"

type_synonym exchange = "query \<times> (py_error + page)"

definition update :: "archive \<Rightarrow> query \<Rightarrow> exchange list \<Rightarrow> (py_error + page) \<times> exchange list" where
  "update srv q log = (let r = srv (length log) q in (r, log @ [(q, r)]))"

text \<open>
  Floating point is not modelled: the true division of two integers, \<open>round(x, n)\<close> and the
  formatting of a float are parameters. The two checks that Python makes on the integers
  before it divides are part of the model: the divisor is not zero, and the quotient rounds
  to a finite double. The largest double is \<open>2 ^ 1024 - 2 ^ 971\<close>; a quotient rounds to a
  finite double exactly when its absolute value is below \<open>2 ^ 1024 - 2 ^ 970\<close>, half way to
  the next power of two.
\<close>

record 'f float_ops =
  truediv :: "int \<Rightarrow> int \<Rightarrow> 'f"
  round_ndigits :: "'f \<Rightarrow> int \<Rightarrow> 'f"
  str_float :: "'f \<Rightarrow> string"

definition float_overflow :: "int \<Rightarrow> int \<Rightarrow> bool" where
  "float_overflow a b = ((2 ^ 1024 - 2 ^ 970) * \<bar>b\<bar> \<le> \<bar>a\<bar>)"

definition py_truediv :: "'f float_ops \<Rightarrow> int \<Rightarrow> int \<Rightarrow> py_error + 'f" where
  "py_truediv ops a b =
     (if b = 0 then Inl ZeroDivisionError
      else if float_overflow a b then Inl OverflowError
      else Inr (truediv ops a b))"

text \<open>\<open>str(n)\<close> of an integer, as an f-string formats it.\<close>

fun str_nat :: "nat \<Rightarrow> string" where
  "str_nat n =
     (if n < 10 then [''0123456789'' ! n]
      else str_nat (n div 10) @ [''0123456789'' ! (n mod 10)])"

definition str_int :: "int \<Rightarrow> string" where
  "str_int i = (if i < 0 then CHR ''-'' # str_nat (nat (- i)) else str_nat (nat i))"

section \<open>fandom.py\<close>

subsection \<open>counter\<close>

type_synonym freq = "string \<rightharpoonup> int"

definition setdefault :: "freq \<Rightarrow> string \<Rightarrow> int \<Rightarrow> int \<times> freq" where
  "setdefault countDict item d =
     (case countDict item of None \<Rightarrow> (d, countDict(item \<mapsto> d)) | Some c \<Rightarrow> (c, countDict))"

fun counter_loop :: "freq \<Rightarrow> string list \<Rightarrow> freq" where
  "counter_loop countDict [] = countDict"
| "counter_loop countDict (item # rest) =
     (let (currentCount, countDict1) = setdefault countDict item 0
      in counter_loop (countDict1(item \<mapsto> currentCount + 1)) rest)"

text \<open>
  \<open>counter(countDict, itemList)\<close>: the \<open>for\<close> statement raises \<open>TypeError\<close> when
  \<open>itemList\<close> is \<open>None\<close>, before anything is counted.
\<close>

definition counter :: "freq \<Rightarrow> string list option \<Rightarrow> py_error + freq" where
  "counter countDict itemList =
     (case itemList of None \<Rightarrow> Inl TypeError | Some items \<Rightarrow> Inr (counter_loop countDict items))"

subsection \<open>The class Fandom\<close>

record fandom =
  fandomName :: string
  singleChapter :: bool
  language :: string
  crossover :: "bool option"
  completionStatus :: "bool option"
  revisedAt :: string
  session :: "session option"
  characters :: string
  relationships :: string
  tags :: string
  wordCountConstraint :: "constraint option"
  hitConstraint :: "constraint option"
  bookmarkConstraint :: "constraint option"
  commentConstraint :: "constraint option"
  totalWorks :: int

text \<open>
  The block that \<open>__init__\<close> repeats for the word count, the hits, the bookmarks and the
  comments.
\<close>

definition constraint_of :: "int option \<Rightarrow> int option \<Rightarrow> constraint option" where
  "constraint_of minimum maximum =
     (if minimum \<noteq> None \<or> maximum \<noteq> None then
        (case minimum of
           Some lo \<Rightarrow> Some (Constraint lo maximum)
         | None \<Rightarrow> Some (Constraint 0 maximum))
      else None)"

text \<open>\<open>Fandom.search\<close>: the stored filters and the overrides of the call (\<open>sampleSize\<close> is not used).\<close>

definition search ::
  "fandom \<Rightarrow> int option \<Rightarrow> int list option \<Rightarrow> int option \<Rightarrow> string \<Rightarrow> string \<Rightarrow> int \<Rightarrow> query" where
  "search self rating warnings sampleSize sortColumn sortDirection pageNumber =
     \<lparr>kw_fandoms = fandomName self, kw_single_chapter = singleChapter self,
      kw_word_count = wordCountConstraint self, kw_language = language self,
      kw_hits = hitConstraint self, kw_bookmarks = bookmarkConstraint self,
      kw_comments = commentConstraint self, kw_crossover = crossover self,
      kw_completion_status = completionStatus self, kw_revised_at = revisedAt self,
      kw_relationships = relationships self, kw_characters = characters self,
      kw_tags = tags self, kw_session = session self, kw_rating = rating,
      kw_warnings = warnings, kw_sort_column = sortColumn,
      kw_sort_direction = sortDirection, kw_page = pageNumber\<rparr>"

text \<open>
  \<open>Fandom.__init__\<close>: the attributes are set, then one request gives the total. When the
  request raises, no object exists.
\<close>

definition Fandom_init ::
  "archive \<Rightarrow> string \<Rightarrow> session option \<Rightarrow> bool \<Rightarrow> int option \<Rightarrow> int option \<Rightarrow> string \<Rightarrow>
   int option \<Rightarrow> int option \<Rightarrow> int option \<Rightarrow> int option \<Rightarrow> int option \<Rightarrow> int option \<Rightarrow>
   bool option \<Rightarrow> bool option \<Rightarrow> string \<Rightarrow> string \<Rightarrow> string \<Rightarrow> string \<Rightarrow>
   (py_error + fandom) \<times> exchange list" where
  "Fandom_init srv fandomName' session' singleChapter' wordCountMin wordCountMax language'
     minHits maxHits minBookmarks maxBookmarks minComments maxComments
     crossover' completionStatus' revisedAt' characters' relationships' tags' =
     (let self = \<lparr>fandomName = fandomName', singleChapter = singleChapter',
                  language = language', crossover = crossover',
                  completionStatus = completionStatus', revisedAt = revisedAt',
                  session = session', characters = characters',
                  relationships = relationships', tags = tags',
                  wordCountConstraint = constraint_of wordCountMin wordCountMax,
                  hitConstraint = constraint_of minHits maxHits,
                  bookmarkConstraint = constraint_of minBookmarks maxBookmarks,
                  commentConstraint = constraint_of minComments maxComments,
                  totalWorks = 0\<rparr>;
          (r, log) = update srv (search self None None None [] [] 1) []
      in case r of
           Inl e \<Rightarrow> (Inl e, log)
         | Inr searchResults \<Rightarrow> (Inr (self\<lparr>totalWorks := total_results searchResults\<rparr>), log))"

text \<open>
  \<open>Fandom.getRatingComposition\<close>: one request for each of \<open>range(0, 5)\<close>, with rating
  \<open>i + 9\<close>. The dictionary starts with \<open>None\<close> under the five keys.
\<close>

type_synonym 'f composition = "int \<rightharpoonup> (int \<times> 'f) option"

fun getRatingComposition_loop ::
  "'f float_ops \<Rightarrow> archive \<Rightarrow> fandom \<Rightarrow> int list \<Rightarrow> 'f composition \<Rightarrow> exchange list \<Rightarrow>
   (py_error + 'f composition) \<times> exchange list" where
  "getRatingComposition_loop ops srv self [] ratingResults log = (Inr ratingResults, log)"
| "getRatingComposition_loop ops srv self (i # rest) ratingResults log =
     (let (r, log1) = update srv (search self (Some (i + 9)) None None [] [] 1) log
      in case r of
           Inl e \<Rightarrow> (Inl e, log1)
         | Inr searchResults \<Rightarrow>
             (case py_truediv ops (100 * total_results searchResults) (totalWorks self) of
                Inl e \<Rightarrow> (Inl e, log1)
              | Inr x \<Rightarrow>
                  (let ratingPercentage = round_ndigits ops x 2
                   in getRatingComposition_loop ops srv self rest
                        (ratingResults(i + 9 \<mapsto> Some (total_results searchResults, ratingPercentage)))
                        log1)))"

definition getRatingComposition ::
  "'f float_ops \<Rightarrow> archive \<Rightarrow> fandom \<Rightarrow> (py_error + 'f composition) \<times> exchange list" where
  "getRatingComposition ops srv self =
     getRatingComposition_loop ops srv self [0, 1, 2, 3, 4]
       [9 \<mapsto> None, 10 \<mapsto> None, 11 \<mapsto> None, 12 \<mapsto> None, 13 \<mapsto> None] []"

text \<open>
  \<open>Fandom.getWarningComposition\<close>: one request for each warning of \<open>warningValues\<close>, each
  with the rating restriction; the answer is a text.
\<close>

definition percent_line :: "'f float_ops \<Rightarrow> int \<Rightarrow> 'f \<Rightarrow> string" where
  "percent_line ops n percentage =
     str_int n @ '' fics, '' @ str_float ops percentage @ '' percent of the fandom.'' @ [CHR 0x0A]"

fun getWarningComposition_loop ::
  "'f float_ops \<Rightarrow> archive \<Rightarrow> fandom \<Rightarrow> int option \<Rightarrow> (nat \<times> int) list \<Rightarrow> string list \<Rightarrow>
   exchange list \<Rightarrow> (py_error + string list) \<times> exchange list" where
  "getWarningComposition_loop ops srv self ratingRestriction [] warningResults log =
     (Inr warningResults, log)"
| "getWarningComposition_loop ops srv self ratingRestriction ((index, val) # rest) warningResults log =
     (let (r, log1) = update srv (search self ratingRestriction (Some [val]) None [] [] 1) log
      in case r of
           Inl e \<Rightarrow> (Inl e, log1)
         | Inr searchResults \<Rightarrow>
             (case py_truediv ops (100 * total_results searchResults) (totalWorks self) of
                Inl e \<Rightarrow> (Inl e, log1)
              | Inr x \<Rightarrow>
                  (let warningPercentage = round_ndigits ops x 2
                   in getWarningComposition_loop ops srv self ratingRestriction rest
                        (warningResults[index := warningResults ! index @
                           percent_line ops (total_results searchResults) warningPercentage])
                        log1)))"

definition warningValues :: "int list" where
  "warningValues = [14, 16, 17, 18, 19, 20]"

definition warningResults0 :: "string list" where
  "warningResults0 =
     [''Creator Chose Not To Use Archive Warnings: '', ''No Archive Warnings Apply: '',
      ''Graphic Depictions Of Violence: '', ''Major Character Death: '', ''Rape/Non-Con: '',
      ''Underage: '']"

definition getWarningComposition ::
  "'f float_ops \<Rightarrow> archive \<Rightarrow> fandom \<Rightarrow> int option \<Rightarrow> (py_error + string) \<times> exchange list" where
  "getWarningComposition ops srv self ratingRestriction =
     (case getWarningComposition_loop ops srv self ratingRestriction
             (enumerate 0 warningValues) warningResults0 [] of
        (Inl e, log) \<Rightarrow> (Inl e, log)
      | (Inr warningResults, log) \<Rightarrow>
          (Inr (fandomName self @ '' Fandom'' @ [CHR 0x0A] @ concat warningResults), log))"

subsection \<open>Fandom.attributeCounter\<close>

text \<open>
  The local variables of a call. \<open>tagCount\<close> is the dictionary of frequency tables: the one
  that the caller passed, which the call changes in place, or a new one. Its tables are taken
  to be distinct objects. \<open>fetched\<close> is the log of the requests of the call.
\<close>

record locals =
  tagCount :: "string \<rightharpoonup> freq"
  ficsCounted :: int
  pageNumber :: int
  relationshipList :: "string list option"
  characterList :: "string list option"
  tagList :: "string list option"
  fetched :: "exchange list"

text \<open>
  An exception ends a call with the local state that it has reached: \<open>Inl (e, s)\<close>. What
  \<open>tagCount s\<close> holds then is what the caller finds in the dictionary that it passed.
\<close>

type_synonym 'a raised = "(py_error \<times> locals) + 'a"

definition fetch :: "archive \<Rightarrow> query \<Rightarrow> locals \<Rightarrow> (page \<times> locals) raised" where
  "fetch srv q s =
     (let (r, log) = update srv q (fetched s); s1 = s\<lparr>fetched := log\<rparr>
      in case r of Inl e \<Rightarrow> Inl (e, s1) | Inr p \<Rightarrow> Inr (p, s1))"

text \<open>\<open>if key in tagCount: counter(tagCount[key], itemList)\<close>\<close>

definition count_into :: "string \<Rightarrow> string list option \<Rightarrow> locals \<Rightarrow> locals raised" where
  "count_into key itemList s =
     (case tagCount s key of
        None \<Rightarrow> Inr s
      | Some countDict \<Rightarrow>
          (case counter countDict itemList of
             Inl e \<Rightarrow> Inl (e, s)
           | Inr countDict1 \<Rightarrow> Inr (s\<lparr>tagCount := (tagCount s)(key \<mapsto> countDict1)\<rparr>)))"

text \<open>
  The body of \<open>for work in currentPage.results\<close>: first the lists that the type selects
  are read from the work (the other variables keep their value), then each of the three
  tables that \<open>tagCount\<close> has is counted with the variable of its name.
\<close>

definition select_lists :: "string \<Rightarrow> work \<Rightarrow> locals \<Rightarrow> locals" where
  "select_lists type work s =
     (if type = ''relationships'' then s\<lparr>relationshipList := Some (work_relationships work)\<rparr>
      else if type = ''characters'' then s\<lparr>characterList := Some (work_characters work)\<rparr>
      else if type = ''tags'' then s\<lparr>tagList := Some (work_tags work)\<rparr>
      else s\<lparr>relationshipList := Some (work_relationships work),
             characterList := Some (work_characters work),
             tagList := Some (work_tags work)\<rparr>)"

definition count_work :: "string \<Rightarrow> work \<Rightarrow> locals \<Rightarrow> locals raised" where
  "count_work type work s =
     (let s1 = select_lists type work s
      in case count_into ''relationships'' (relationshipList s1) s1 of
           Inl x \<Rightarrow> Inl x
         | Inr s2 \<Rightarrow>
             (case count_into ''characters'' (characterList s2) s2 of
                Inl x \<Rightarrow> Inl x
              | Inr s3 \<Rightarrow>
                  (case count_into ''tags'' (tagList s3) s3 of
                     Inl x \<Rightarrow> Inl x
                   | Inr s4 \<Rightarrow> Inr (s4\<lparr>ficsCounted := ficsCounted s4 + 1\<rparr>))))"

fun count_page :: "string \<Rightarrow> work list \<Rightarrow> locals \<Rightarrow> locals raised" where
  "count_page type [] s = Inr s"
| "count_page type (work # rest) s =
     (case count_work type work s of Inl x \<Rightarrow> Inl x | Inr s1 \<Rightarrow> count_page type rest s1)"

text \<open>\<open>time.sleep(waitTime)\<close> raises \<open>ValueError\<close> for a negative length.\<close>

definition sleep :: "int \<Rightarrow> locals \<Rightarrow> locals raised" where
  "sleep waitTime s = (if waitTime < 0 then Inl (ValueError, s) else Inr s)"

text \<open>The body of the \<open>while\<close> statement: one page is requested and counted.\<close>

definition attributeCounter_body ::
  "archive \<Rightarrow> fandom \<Rightarrow> string \<Rightarrow> int option \<Rightarrow> int list option \<Rightarrow> string \<Rightarrow> string \<Rightarrow> int \<Rightarrow>
   locals \<Rightarrow> locals raised" where
  "attributeCounter_body srv self type rating warnings sortColumn sortDirection waitTime s =
     (case fetch srv (search self rating warnings None sortColumn sortDirection (pageNumber s)) s of
        Inl x \<Rightarrow> Inl x
      | Inr (currentPage, s1) \<Rightarrow>
          (case count_page type (results currentPage) s1 of
             Inl x \<Rightarrow> Inl x
           | Inr s2 \<Rightarrow> sleep waitTime (s2\<lparr>pageNumber := pageNumber s2 + 1\<rparr>)))"

text \<open>
  \<open>while ficsCounted < totalWorkCount\<close>. The loop need not end (an archive that keeps
  answering with empty pages never lets \<open>ficsCounted\<close> grow): not returning is \<open>None\<close>.
\<close>

partial_function (option) attributeCounter_loop ::
  "archive \<Rightarrow> fandom \<Rightarrow> string \<Rightarrow> int option \<Rightarrow> int list option \<Rightarrow> string \<Rightarrow> string \<Rightarrow> int \<Rightarrow>
   int \<Rightarrow> locals \<Rightarrow> locals raised option" where
  "attributeCounter_loop srv self type rating warnings sortColumn sortDirection waitTime
     totalWorkCount s =
     (if ficsCounted s < totalWorkCount then
        (case attributeCounter_body srv self type rating warnings sortColumn sortDirection
                waitTime s of
           Inl x \<Rightarrow> Some (Inl x)
         | Inr s1 \<Rightarrow>
             attributeCounter_loop srv self type rating warnings sortColumn sortDirection
               waitTime totalWorkCount s1)
      else Some (Inr s))"

declare attributeCounter_loop.simps [code]

text \<open>
  The statements before the loop: a call without \<open>tagCount\<close> makes a new dictionary, with
  one empty table for the type, or three for any other type; all counters start at zero and
  the three lists at \<open>None\<close>.
\<close>

definition attributeCounter_start :: "string \<Rightarrow> int \<Rightarrow> (string \<rightharpoonup> freq) option \<Rightarrow> locals" where
  "attributeCounter_start type startPage tagCount' =
     \<lparr>tagCount =
        (case tagCount' of
           None \<Rightarrow>
             (if type = ''tags'' \<or> type = ''relationships'' \<or> type = ''characters''
              then [type \<mapsto> Map.empty]
              else [''tags'' \<mapsto> Map.empty, ''relationships'' \<mapsto> Map.empty,
                    ''characters'' \<mapsto> Map.empty])
         | Some given \<Rightarrow> given),
      ficsCounted = 0, pageNumber = startPage,
      relationshipList = None, characterList = None, tagList = None, fetched = []\<rparr>"

text \<open>
  The whole call, with the local state at its end. Without a sample size the total of the
  query is requested first.
\<close>

definition attributeCounter_run ::
  "archive \<Rightarrow> fandom \<Rightarrow> string \<Rightarrow> int option \<Rightarrow> int list option \<Rightarrow> int option \<Rightarrow> string \<Rightarrow>
   string \<Rightarrow> int \<Rightarrow> int \<Rightarrow> (string \<rightharpoonup> freq) option \<Rightarrow> locals raised option" where
  "attributeCounter_run srv self type rating warnings sampleSize sortColumn sortDirection
     startPage waitTime tagCount' =
     (let s0 = attributeCounter_start type startPage tagCount'
      in case sampleSize of
           Some n \<Rightarrow>
             attributeCounter_loop srv self type rating warnings sortColumn sortDirection
               waitTime n s0
         | None \<Rightarrow>
             (case fetch srv (search self rating warnings None [] [] 1) s0 of
                Inl x \<Rightarrow> Some (Inl x)
              | Inr (totalWorkCountTemp, s1) \<Rightarrow>
                  attributeCounter_loop srv self type rating warnings sortColumn sortDirection
                    waitTime (total_results totalWorkCountTemp) s1))"

text \<open>What the caller receives: the dictionary, or the exception.\<close>

definition attributeCounter ::
  "archive \<Rightarrow> fandom \<Rightarrow> string \<Rightarrow> int option \<Rightarrow> int list option \<Rightarrow> int option \<Rightarrow> string \<Rightarrow>
   string \<Rightarrow> int \<Rightarrow> int \<Rightarrow> (string \<rightharpoonup> freq) option \<Rightarrow> (py_error + (string \<rightharpoonup> freq)) option" where
  "attributeCounter srv self type rating warnings sampleSize sortColumn sortDirection
     startPage waitTime tagCount' =
     map_option (\<lambda>r. case r of Inl (e, s) \<Rightarrow> Inl e | Inr s \<Rightarrow> Inr (tagCount s))
       (attributeCounter_run srv self type rating warnings sampleSize sortColumn sortDirection
          startPage waitTime tagCount')"

section \<open>AO3_analyzer.py\<close>

text \<open>
  The older module has the same class without the filters \<open>characters\<close>, \<open>relationships\<close>
  and \<open>tags\<close>, and builds every query in place. Its objects are values of the same record,
  with these three attributes empty; its queries leave the three keywords out.
\<close>

definition AO3_analyzer_Search ::
  "fandom \<Rightarrow> int option \<Rightarrow> int list option \<Rightarrow> string \<Rightarrow> string \<Rightarrow> int \<Rightarrow> query" where
  "AO3_analyzer_Search self rating warnings sortColumn sortDirection page =
     \<lparr>kw_fandoms = fandomName self, kw_single_chapter = singleChapter self,
      kw_word_count = wordCountConstraint self, kw_language = language self,
      kw_hits = hitConstraint self, kw_bookmarks = bookmarkConstraint self,
      kw_comments = commentConstraint self, kw_crossover = crossover self,
      kw_completion_status = completionStatus self, kw_revised_at = revisedAt self,
      kw_relationships = [], kw_characters = [], kw_tags = [],
      kw_session = session self, kw_rating = rating, kw_warnings = warnings,
      kw_sort_column = sortColumn, kw_sort_direction = sortDirection, kw_page = page\<rparr>"

definition AO3_analyzer_Fandom_init ::
  "archive \<Rightarrow> string \<Rightarrow> session option \<Rightarrow> bool \<Rightarrow> int option \<Rightarrow> int option \<Rightarrow> string \<Rightarrow>
   int option \<Rightarrow> int option \<Rightarrow> int option \<Rightarrow> int option \<Rightarrow> int option \<Rightarrow> int option \<Rightarrow>
   bool option \<Rightarrow> bool option \<Rightarrow> string \<Rightarrow> (py_error + fandom) \<times> exchange list" where
  "AO3_analyzer_Fandom_init srv fandomName' session' singleChapter' wordCountMin wordCountMax
     language' minHits maxHits minBookmarks maxBookmarks minComments maxComments
     crossover' completionStatus' revisedAt' =
     (let self = \<lparr>fandomName = fandomName', singleChapter = singleChapter',
                  language = language', crossover = crossover',
                  completionStatus = completionStatus', revisedAt = revisedAt',
                  session = session', characters = [], relationships = [], tags = [],
                  wordCountConstraint = constraint_of wordCountMin wordCountMax,
                  hitConstraint = constraint_of minHits maxHits,
                  bookmarkConstraint = constraint_of minBookmarks maxBookmarks,
                  commentConstraint = constraint_of minComments maxComments,
                  totalWorks = 0\<rparr>;
          (r, log) = update srv (AO3_analyzer_Search self None None [] [] 1) []
      in case r of
           Inl e \<Rightarrow> (Inl e, log)
         | Inr searchResults \<Rightarrow> (Inr (self\<lparr>totalWorks := total_results searchResults\<rparr>), log))"

text \<open>Both compositions of the older module are texts.\<close>

fun AO3_analyzer_getRatingComposition_loop ::
  "'f float_ops \<Rightarrow> archive \<Rightarrow> fandom \<Rightarrow> nat list \<Rightarrow> string list \<Rightarrow> exchange list \<Rightarrow>
   (py_error + string list) \<times> exchange list" where
  "AO3_analyzer_getRatingComposition_loop ops srv self [] ratingResults log =
     (Inr ratingResults, log)"
| "AO3_analyzer_getRatingComposition_loop ops srv self (i # rest) ratingResults log =
     (let (r, log1) = update srv (AO3_analyzer_Search self (Some (int i + 9)) None [] [] 1) log
      in case r of
           Inl e \<Rightarrow> (Inl e, log1)
         | Inr searchResults \<Rightarrow>
             (case py_truediv ops (100 * total_results searchResults) (totalWorks self) of
                Inl e \<Rightarrow> (Inl e, log1)
              | Inr x \<Rightarrow>
                  (let ratingPercentage = round_ndigits ops x 2
                   in AO3_analyzer_getRatingComposition_loop ops srv self rest
                        (ratingResults[i := ratingResults ! i @
                           percent_line ops (total_results searchResults) ratingPercentage])
                        log1)))"

definition ratingResults0 :: "string list" where
  "ratingResults0 =
     [''Not Rated: '', ''General Audiences: '', ''Teen and Up Audiences: '', ''Mature: '',
      ''Explicit: '']"

definition AO3_analyzer_getRatingComposition ::
  "'f float_ops \<Rightarrow> archive \<Rightarrow> fandom \<Rightarrow> (py_error + string) \<times> exchange list" where
  "AO3_analyzer_getRatingComposition ops srv self =
     (case AO3_analyzer_getRatingComposition_loop ops srv self [0, 1, 2, 3, 4] ratingResults0 [] of
        (Inl e, log) \<Rightarrow> (Inl e, log)
      | (Inr ratingResults, log) \<Rightarrow>
          (Inr (fandomName self @ '' Fandom'' @ [CHR 0x0A] @ concat ratingResults), log))"

fun AO3_analyzer_getWarningComposition_loop ::
  "'f float_ops \<Rightarrow> archive \<Rightarrow> fandom \<Rightarrow> int option \<Rightarrow> (nat \<times> int) list \<Rightarrow> string list \<Rightarrow>
   exchange list \<Rightarrow> (py_error + string list) \<times> exchange list" where
  "AO3_analyzer_getWarningComposition_loop ops srv self ratingRestriction [] warningResults log =
     (Inr warningResults, log)"
| "AO3_analyzer_getWarningComposition_loop ops srv self ratingRestriction ((index, val) # rest)
     warningResults log =
     (let (r, log1) =
            update srv (AO3_analyzer_Search self ratingRestriction (Some [val]) [] [] 1) log
      in case r of
           Inl e \<Rightarrow> (Inl e, log1)
         | Inr searchResults \<Rightarrow>
             (case py_truediv ops (100 * total_results searchResults) (totalWorks self) of
                Inl e \<Rightarrow> (Inl e, log1)
              | Inr x \<Rightarrow>
                  (let warningPercentage = round_ndigits ops x 2
                   in AO3_analyzer_getWarningComposition_loop ops srv self ratingRestriction rest
                        (warningResults[index := warningResults ! index @
                           percent_line ops (total_results searchResults) warningPercentage])
                        log1)))"

definition AO3_analyzer_getWarningComposition ::
  "'f float_ops \<Rightarrow> archive \<Rightarrow> fandom \<Rightarrow> int option \<Rightarrow> (py_error + string) \<times> exchange list" where
  "AO3_analyzer_getWarningComposition ops srv self ratingRestriction =
     (case AO3_analyzer_getWarningComposition_loop ops srv self ratingRestriction
             (enumerate 0 warningValues) warningResults0 [] of
        (Inl e, log) \<Rightarrow> (Inl e, log)
      | (Inr warningResults, log) \<Rightarrow>
          (Inr (fandomName self @ '' Fandom'' @ [CHR 0x0A] @ concat warningResults), log))"

subsection \<open>attributeCounter of the older module\<close>

text \<open>One frequency table, always a new one; no start page and no waiting.\<close>

record locals_A =
  tagCount_A :: freq
  ficsCounted_A :: int
  pageNumber_A :: int
  fetched_A :: "exchange list"

type_synonym 'a raised_A = "(py_error \<times> locals_A) + 'a"

definition fetch_A :: "archive \<Rightarrow> query \<Rightarrow> locals_A \<Rightarrow> (page \<times> locals_A) raised_A" where
  "fetch_A srv q s =
     (let (r, log) = update srv q (fetched_A s); s1 = s\<lparr>fetched_A := log\<rparr>
      in case r of Inl e \<Rightarrow> Inl (e, s1) | Inr p \<Rightarrow> Inr (p, s1))"

definition attributeList_A :: "string \<Rightarrow> work \<Rightarrow> string list" where
  "attributeList_A type work =
     (if type = ''relationships'' then work_relationships work
      else if type = ''characters'' then work_characters work
      else work_tags work)"

definition count_work_A :: "string \<Rightarrow> work \<Rightarrow> locals_A \<Rightarrow> locals_A" where
  "count_work_A type work s =
     (let attributeList = attributeList_A type work;
          s1 = s\<lparr>tagCount_A := counter_loop (tagCount_A s) attributeList\<rparr>
      in s1\<lparr>ficsCounted_A := ficsCounted_A s1 + 1\<rparr>)"

fun count_page_A :: "string \<Rightarrow> work list \<Rightarrow> locals_A \<Rightarrow> locals_A" where
  "count_page_A type [] s = s"
| "count_page_A type (work # rest) s = count_page_A type rest (count_work_A type work s)"

definition AO3_analyzer_attributeCounter_body ::
  "archive \<Rightarrow> fandom \<Rightarrow> string \<Rightarrow> int option \<Rightarrow> int list option \<Rightarrow> string \<Rightarrow> string \<Rightarrow>
   locals_A \<Rightarrow> locals_A raised_A" where
  "AO3_analyzer_attributeCounter_body srv self type rating warnings sortColumn sortDirection s =
     (case fetch_A srv
             (AO3_analyzer_Search self rating warnings sortColumn sortDirection (pageNumber_A s)) s of
        Inl x \<Rightarrow> Inl x
      | Inr (currentPage, s1) \<Rightarrow>
          (let s2 = count_page_A type (results currentPage) s1
           in Inr (s2\<lparr>pageNumber_A := pageNumber_A s2 + 1\<rparr>)))"

text \<open>\<open>while ficsCounted <= totalWorkCount\<close>\<close>

partial_function (option) AO3_analyzer_attributeCounter_loop ::
  "archive \<Rightarrow> fandom \<Rightarrow> string \<Rightarrow> int option \<Rightarrow> int list option \<Rightarrow> string \<Rightarrow> string \<Rightarrow> int \<Rightarrow>
   locals_A \<Rightarrow> locals_A raised_A option" where
  "AO3_analyzer_attributeCounter_loop srv self type rating warnings sortColumn sortDirection
     totalWorkCount s =
     (if ficsCounted_A s \<le> totalWorkCount then
        (case AO3_analyzer_attributeCounter_body srv self type rating warnings sortColumn
                sortDirection s of
           Inl x \<Rightarrow> Some (Inl x)
         | Inr s1 \<Rightarrow>
             AO3_analyzer_attributeCounter_loop srv self type rating warnings sortColumn
               sortDirection totalWorkCount s1)
      else Some (Inr s))"

declare AO3_analyzer_attributeCounter_loop.simps [code]

definition AO3_analyzer_attributeCounter_start :: locals_A where
  "AO3_analyzer_attributeCounter_start =
     \<lparr>tagCount_A = Map.empty, ficsCounted_A = 0, pageNumber_A = 1, fetched_A = []\<rparr>"

text \<open>
  Without a sample size the total is stored under the name \<open>totalWrokCount\<close>, and the
  condition of the loop reads \<open>totalWorkCount\<close>, a local variable that has no value then.
\<close>

definition AO3_analyzer_attributeCounter_run ::
  "archive \<Rightarrow> fandom \<Rightarrow> string \<Rightarrow> int option \<Rightarrow> int list option \<Rightarrow> int option \<Rightarrow> string \<Rightarrow>
   string \<Rightarrow> locals_A raised_A option" where
  "AO3_analyzer_attributeCounter_run srv self type rating warnings sampleSize sortColumn
     sortDirection =
     (let s0 = AO3_analyzer_attributeCounter_start
      in case sampleSize of
           Some n \<Rightarrow>
             AO3_analyzer_attributeCounter_loop srv self type rating warnings sortColumn
               sortDirection n s0
         | None \<Rightarrow>
             (case fetch_A srv (AO3_analyzer_Search self rating warnings [] [] 1) s0 of
                Inl x \<Rightarrow> Some (Inl x)
              | Inr (totalWorkCountTemp, s1) \<Rightarrow> Some (Inl (UnboundLocalError, s1))))"

definition AO3_analyzer_attributeCounter ::
  "archive \<Rightarrow> fandom \<Rightarrow> string \<Rightarrow> int option \<Rightarrow> int list option \<Rightarrow> int option \<Rightarrow> string \<Rightarrow>
   string \<Rightarrow> (py_error + freq) option" where
  "AO3_analyzer_attributeCounter srv self type rating warnings sampleSize sortColumn
     sortDirection =
     map_option (\<lambda>r. case r of Inl (e, s) \<Rightarrow> Inl e | Inr s \<Rightarrow> Inr (tagCount_A s))
       (AO3_analyzer_attributeCounter_run srv self type rating warnings sampleSize sortColumn
          sortDirection)"

section \<open>Vocabulary of the statements\<close>

text \<open>
  The policy of the constraint builder, in the words of the specification: no bound gives no
  constraint, a maximum alone gives the interval from zero, a minimum alone gives the
  interval without upper bound, both give the closed interval.
\<close>

definition constraint_policy :: "int option \<Rightarrow> int option \<Rightarrow> constraint option \<Rightarrow> bool" where
  "constraint_policy minimum maximum c =
     (case (minimum, maximum) of
        (None, None) \<Rightarrow> c = None
      | (None, Some hi) \<Rightarrow> c = Some (Constraint 0 (Some hi))
      | (Some lo, None) \<Rightarrow> c = Some (Constraint lo None)
      | (Some lo, Some hi) \<Rightarrow> c = Some (Constraint lo (Some hi)))"

text \<open>The local state at the end of a call, however it ends.\<close>

definition final_locals :: "locals raised \<Rightarrow> locals" where
  "final_locals r = (case r of Inl (e, s) \<Rightarrow> s | Inr s \<Rightarrow> s)"

definition final_locals_A :: "locals_A raised_A \<Rightarrow> locals_A" where
  "final_locals_A r = (case r of Inl (e, s) \<Rightarrow> s | Inr s \<Rightarrow> s)"

text \<open>The works of the pages of a part of the log, in the order of the requests.\<close>

definition works_of :: "exchange list \<Rightarrow> work list" where
  "works_of log = concat (map (\<lambda>(q, r). case r of Inl e \<Rightarrow> [] | Inr p \<Rightarrow> results p) log)"

text \<open>No request of this part of the log was answered with an exception.\<close>

definition all_answered :: "exchange list \<Rightarrow> bool" where
  "all_answered log = list_all (\<lambda>(q, r). case r of Inl e \<Rightarrow> False | Inr p \<Rightarrow> True) log"

subsection \<open>The loop, the tables and the types\<close>

text \<open>A local state with another page number and another log.\<close>

definition with_cursor :: "int \<Rightarrow> exchange list \<Rightarrow> locals \<Rightarrow> locals" where
  "with_cursor k log s = s\<lparr>pageNumber := k, fetched := log\<rparr>"

text \<open>
  What holds when the loop ends, for an invariant \<open>I\<close>: it returns a state that satisfies
  \<open>I\<close> and has reached the target, or its body raised in a state that satisfies \<open>I\<close>.
\<close>

definition loop_post ::
  "archive \<Rightarrow> fandom \<Rightarrow> string \<Rightarrow> int option \<Rightarrow> int list option \<Rightarrow> string \<Rightarrow> string \<Rightarrow> int \<Rightarrow>
   int \<Rightarrow> (locals \<Rightarrow> bool) \<Rightarrow> locals raised \<Rightarrow> bool" where
  "loop_post srv self type rating warnings sortColumn sortDirection waitTime n I r =
     ((\<exists>f. r = Inr f \<and> I f \<and> n \<le> ficsCounted f)
       \<or> (\<exists>x s'. r = Inl x \<and> I s' \<and> ficsCounted s' < n
            \<and> attributeCounter_body srv self type rating warnings sortColumn sortDirection
                 waitTime s' = Inl x))"

text \<open>The body of the loop keeps the invariant \<open>I\<close>.\<close>

definition loop_step ::
  "archive \<Rightarrow> fandom \<Rightarrow> string \<Rightarrow> int option \<Rightarrow> int list option \<Rightarrow> string \<Rightarrow> string \<Rightarrow> int \<Rightarrow>
   int \<Rightarrow> (locals \<Rightarrow> bool) \<Rightarrow> bool" where
  "loop_step srv self type rating warnings sortColumn sortDirection waitTime n I =
     (\<forall>s s1. I s \<longrightarrow> ficsCounted s < n \<longrightarrow>
        attributeCounter_body srv self type rating warnings sortColumn sortDirection
          waitTime s = Inr s1 \<longrightarrow> I s1)"

text \<open>The \<open>i\<close>-th request of the loop that starts in \<open>s0\<close>, with its answer.\<close>

definition page_exchange ::
  "archive \<Rightarrow> fandom \<Rightarrow> int option \<Rightarrow> int list option \<Rightarrow> string \<Rightarrow> string \<Rightarrow> locals \<Rightarrow> nat \<Rightarrow>
   exchange" where
  "page_exchange srv self rating warnings sortColumn sortDirection s0 i =
     (search self rating warnings None sortColumn sortDirection (pageNumber s0 + int i),
      srv (length (fetched s0) + i)
        (search self rating warnings None sortColumn sortDirection (pageNumber s0 + int i)))"

definition page_exchanges ::
  "archive \<Rightarrow> fandom \<Rightarrow> int option \<Rightarrow> int list option \<Rightarrow> string \<Rightarrow> string \<Rightarrow> locals \<Rightarrow> nat \<Rightarrow>
   exchange list" where
  "page_exchanges srv self rating warnings sortColumn sortDirection s0 k =
     map (page_exchange srv self rating warnings sortColumn sortDirection s0) [0..<k]"

text \<open>
  The state before the request \<open>k\<close> of the loop: the \<open>k\<close> pages before were answered and
  counted, and before the last of them the target was not reached.
\<close>

definition reached ::
  "archive \<Rightarrow> fandom \<Rightarrow> string \<Rightarrow> int option \<Rightarrow> int list option \<Rightarrow> string \<Rightarrow> string \<Rightarrow> int \<Rightarrow>
   locals \<Rightarrow> nat \<Rightarrow> locals \<Rightarrow> bool" where
  "reached srv self type rating warnings sortColumn sortDirection n s0 k s =
     (all_answered (page_exchanges srv self rating warnings sortColumn sortDirection s0 k)
      \<and> (\<exists>s1. count_page type
                 (works_of (page_exchanges srv self rating warnings sortColumn sortDirection s0 k))
                 s0 = Inr s1
              \<and> s = with_cursor (pageNumber s0 + int k)
                    (fetched s0 @ page_exchanges srv self rating warnings sortColumn sortDirection s0 k)
                    s1)
      \<and> (0 < k \<longrightarrow>
           ficsCounted s0 + int (length (works_of
             (page_exchanges srv self rating warnings sortColumn sortDirection s0 (k - 1)))) < n))"

text \<open>A table grows: no key is lost and no count gets smaller.\<close>

definition grows_table :: "freq \<Rightarrow> freq \<Rightarrow> bool" where
  "grows_table t t' = (\<forall>a c. t a = Some c \<longrightarrow> (\<exists>c'. t' a = Some c' \<and> c \<le> c'))"

definition grows :: "(string \<rightharpoonup> freq) \<Rightarrow> (string \<rightharpoonup> freq) \<Rightarrow> bool" where
  "grows T T' = (\<forall>K t. T K = Some t \<longrightarrow> (\<exists>t'. T' K = Some t' \<and> grows_table t t'))"

text \<open>
  The lists that a type selects, in the words of the specification: each of the three names
  selects the list of that name, every other type selects the three lists. Each list is paired
  with the key of the table that counts it.
\<close>

definition selection :: "string \<Rightarrow> (string \<times> (work \<Rightarrow> string list)) list" where
  "selection type =
     (if type = ''tags'' then [(''tags'', work_tags)]
      else if type = ''relationships'' then [(''relationships'', work_relationships)]
      else if type = ''characters'' then [(''characters'', work_characters)]
      else [(''tags'', work_tags), (''relationships'', work_relationships),
            (''characters'', work_characters)])"

text \<open>
  A dictionary of tables fits a type when it has no table under one of the three keys whose
  list the type does not select. The new dictionary of a call fits its type.
\<close>

definition fits :: "string \<Rightarrow> (string \<rightharpoonup> freq) \<Rightarrow> bool" where
  "fits type T =
     list_all (\<lambda>K. T K = None \<or> map_of (selection type) K \<noteq> None)
       [''relationships'', ''characters'', ''tags'']"

text \<open>The tables after the works \<open>ws\<close> were counted: each selected list goes to the table of its key.\<close>

definition tally :: "string \<Rightarrow> (string \<rightharpoonup> freq) \<Rightarrow> work list \<Rightarrow> (string \<rightharpoonup> freq)" where
  "tally type T ws =
     (\<lambda>K. case T K of
            None \<Rightarrow> None
          | Some t \<Rightarrow>
              (case map_of (selection type) K of
                 None \<Rightarrow> Some t
               | Some sel \<Rightarrow> Some (counter_loop t (concat (map sel ws)))))"

text \<open>The list \<open>xs\<close> counted into the table of the key \<open>K\<close>, when there is one.\<close>

definition count_in :: "string \<Rightarrow> string list \<Rightarrow> (string \<rightharpoonup> freq) \<Rightarrow> (string \<rightharpoonup> freq)" where
  "count_in K xs T = (case T K of None \<Rightarrow> T | Some t \<Rightarrow> T(K \<mapsto> counter_loop t xs))"

text \<open>The count of an attribute in a table: zero when the attribute is not a key of it.\<close>

definition count_of :: "freq \<Rightarrow> string \<Rightarrow> int" where
  "count_of t a = (case t a of None \<Rightarrow> 0 | Some c \<Rightarrow> c)"

text \<open>
  The works that a call has counted when it returns: those of the pages that its loop
  requested. A call without a sample size makes one request before, for the total.
\<close>

definition consumed :: "int option \<Rightarrow> locals \<Rightarrow> work list" where
  "consumed sampleSize s =
     works_of (drop (case sampleSize of None \<Rightarrow> 1 | Some n \<Rightarrow> 0) (fetched s))"

text \<open>The number of requests of a call of the older module, when the call ends.\<close>

definition requests_made_A :: "locals_A raised_A option \<Rightarrow> nat option" where
  "requests_made_A run = map_option (\<lambda>r. length (fetched_A (final_locals_A r))) run"

text \<open>The number of works that a call of the older module has counted, when it ends.\<close>

definition works_counted_A :: "locals_A raised_A option \<Rightarrow> int option" where
  "works_counted_A run = map_option (\<lambda>r. ficsCounted_A (final_locals_A r)) run"

text \<open>
  The query of a rating bucket, in the words of the specification: the stored filters of the
  fandom, filtered to the rating of the bucket, with no warnings, no sort order and the
  first page.
\<close>

definition rating_query :: "fandom \<Rightarrow> int \<Rightarrow> query" where
  "rating_query self r =
     \<lparr>kw_fandoms = fandomName self, kw_single_chapter = singleChapter self,
      kw_word_count = wordCountConstraint self, kw_language = language self,
      kw_hits = hitConstraint self, kw_bookmarks = bookmarkConstraint self,
      kw_comments = commentConstraint self, kw_crossover = crossover self,
      kw_completion_status = completionStatus self, kw_revised_at = revisedAt self,
      kw_relationships = relationships self, kw_characters = characters self,
      kw_tags = tags self, kw_session = session self, kw_rating = Some r,
      kw_warnings = None, kw_sort_column = [], kw_sort_direction = [], kw_page = 1\<rparr>"

subsection \<open>Concrete inputs\<close>

text \<open>
  Floats as the terms that compute them, for the runs on concrete inputs: the operations
  only build the term.
\<close>

datatype float_expr = TrueDiv int int | Round float_expr int

definition symbolic_ops :: "float_expr float_ops" where
  "symbolic_ops = \<lparr>truediv = TrueDiv, round_ndigits = Round, str_float = (\<lambda>x. ''<float>'')\<rparr>"

definition example_work :: work where
  "example_work =
     \<lparr>work_tags = [''fluff'', ''angst''], work_relationships = [''a/b''],
      work_characters = [''a'', ''b'']\<rparr>"

definition example_fandom :: "int \<Rightarrow> fandom" where
  "example_fandom n =
     \<lparr>fandomName = ''X'', singleChapter = False, language = [], crossover = None,
      completionStatus = None, revisedAt = [], session = None, characters = [],
      relationships = [], tags = [], wordCountConstraint = None, hitConstraint = None,
      bookmarkConstraint = None, commentConstraint = None, totalWorks = n\<rparr>"

text \<open>An archive without works: every answer is an empty page with total 0.\<close>

definition empty_archive :: archive where
  "empty_archive n q = Inr \<lparr>total_results = 0, results = []\<rparr>"

text \<open>An archive without works, whose \<open>n\<close>-th answer has the total \<open>10 * n\<close>.\<close>

definition counting_archive :: archive where
  "counting_archive n q = Inr \<lparr>total_results = 10 * int n, results = []\<rparr>"

text \<open>An archive whose every page holds one work, the example.\<close>

definition one_work_archive :: archive where
  "one_work_archive n q = Inr \<lparr>total_results = 1, results = [example_work]\<rparr>"

text \<open>An archive that answers two requests with a page of one work and fails from the third on.\<close>

definition failing_archive :: archive where
  "failing_archive n q =
     (if n < 2 then Inr \<lparr>total_results = 10, results = [example_work]\<rparr>
      else Inl (AO3Error ''HTTP 429''))"

text \<open>An archive whose every page holds twenty works.\<close>

definition twenty_archive :: archive where
  "twenty_archive n q = Inr \<lparr>total_results = 100, results = replicate 20 example_work\<rparr>"

text \<open>A fandom with every stored filter set, and a total of 100 works.\<close>

definition filtered_fandom :: fandom where
  "filtered_fandom =
     \<lparr>fandomName = ''X'', singleChapter = True, language = ''en'', crossover = Some False,
      completionStatus = Some True, revisedAt = ''> 1 year'', session = None,
      characters = ''A'', relationships = ''A/B'', tags = ''fluff'',
      wordCountConstraint = Some (Constraint 0 (Some 10)),
      hitConstraint = Some (Constraint 5 None), bookmarkConstraint = None,
      commentConstraint = Some (Constraint 1 (Some 2)), totalWorks = 100\<rparr>"

section \<open>Lemmas\<close>

subsection \<open>Counting, and the invariant of the loop\<close>

lemma counter_loop_apply:
  "counter_loop m xs a =
     (if a \<in> set xs then Some ((case m a of None \<Rightarrow> 0 | Some c \<Rightarrow> c) + int (count_list xs a))
      else m a)"
  by (induction xs arbitrary: m) (auto simp: setdefault_def split: option.splits)

lemma counter_loop_append:
  "counter_loop m (xs @ ys) = counter_loop (counter_loop m xs) ys"
  by (induction xs arbitrary: m) (auto simp: setdefault_def split: option.splits)

lemma with_cursor_fields [simp]:
  "tagCount (with_cursor k log s) = tagCount s"
  "ficsCounted (with_cursor k log s) = ficsCounted s"
  "pageNumber (with_cursor k log s) = k"
  "fetched (with_cursor k log s) = log"
  "relationshipList (with_cursor k log s) = relationshipList s"
  "characterList (with_cursor k log s) = characterList s"
  "tagList (with_cursor k log s) = tagList s"
  by (simp_all add: with_cursor_def)

lemma count_into_with_cursor:
  "count_into key l (with_cursor k log s) =
     map_sum (apsnd (with_cursor k log)) (with_cursor k log) (count_into key l s)"
  by (simp add: count_into_def with_cursor_def split: option.splits sum.splits)

lemma select_lists_with_cursor:
  "select_lists type w (with_cursor k log s) = with_cursor k log (select_lists type w s)"
  by (simp add: select_lists_def with_cursor_def)

lemma count_work_with_cursor:
  "count_work type w (with_cursor k log s) =
     map_sum (apsnd (with_cursor k log)) (with_cursor k log) (count_work type w s)"
proof -
  define s1 where "s1 = select_lists type w s"
  show ?thesis
  proof (cases "count_into ''relationships'' (relationshipList s1) s1")
    case (Inl x)
    then show ?thesis
      by (simp add: count_work_def Let_def select_lists_with_cursor count_into_with_cursor
          s1_def [symmetric])
  next
    case a: (Inr s2)
    show ?thesis
    proof (cases "count_into ''characters'' (characterList s2) s2")
      case (Inl x)
      with a show ?thesis
        by (simp add: count_work_def Let_def select_lists_with_cursor count_into_with_cursor
            s1_def [symmetric])
    next
      case b: (Inr s3)
      show ?thesis
      proof (cases "count_into ''tags'' (tagList s3) s3")
        case (Inl x)
        with a b show ?thesis
          by (simp add: count_work_def Let_def select_lists_with_cursor count_into_with_cursor
              s1_def [symmetric])
      next
        case (Inr s4)
        with a b show ?thesis
          by (simp add: count_work_def Let_def select_lists_with_cursor count_into_with_cursor
              s1_def [symmetric])
      qed
    qed
  qed
qed

lemma count_page_with_cursor:
  "count_page type ws (with_cursor k log s) =
     map_sum (apsnd (with_cursor k log)) (with_cursor k log) (count_page type ws s)"
proof (induction ws arbitrary: s)
  case Nil
  show ?case by simp
next
  case (Cons w ws)
  show ?case
    by (cases "count_work type w s") (simp_all add: count_work_with_cursor Cons.IH)
qed

lemma attributeCounter_loop_rule_aux:
  assumes run: "attributeCounter_loop srv self type rating warnings sortColumn sortDirection
             waitTime n s = Some r"
  shows "\<forall>I. I s \<longrightarrow> loop_step srv self type rating warnings sortColumn sortDirection waitTime n I \<longrightarrow>
     loop_post srv self type rating warnings sortColumn sortDirection waitTime n I r"
proof (rule attributeCounter_loop.raw_induct
    [where P = "\<lambda>srv self type rating warnings sortColumn sortDirection waitTime n s r.
       \<forall>I. I s \<longrightarrow> loop_step srv self type rating warnings sortColumn sortDirection waitTime n I \<longrightarrow>
     loop_post srv self type rating warnings sortColumn sortDirection waitTime n I r",
     OF _ run],
    goal_cases)
  case (1 loop srv self type rating warnings sortColumn sortDirection waitTime n s r)
  show ?case
  proof (intro allI impI)
    fix I
    assume I: "I s"
      and step: "loop_step srv self type rating warnings sortColumn sortDirection waitTime n I"
    show "loop_post srv self type rating warnings sortColumn sortDirection waitTime n I r"
    proof (cases "ficsCounted s < n")
      case False
      with 1(2) I show ?thesis by (auto simp: loop_post_def)
    next
      case True
      show ?thesis
      proof (cases "attributeCounter_body srv self type rating warnings sortColumn sortDirection
                      waitTime s")
        case (Inl x)
        with True 1(2) have "r = Inl x" by simp
        with True I Inl show ?thesis unfolding loop_post_def by blast
      next
        case (Inr s1)
        with True 1(2) have run: "loop srv self type rating warnings sortColumn
            sortDirection waitTime n s1 = Some r"
          by simp
        have "I s1" using I step True Inr by (simp add: loop_step_def)
        with 1(1) [OF run] step show ?thesis by blast

      qed
    qed
  qed
qed

lemma attributeCounter_loop_rule:
  assumes run: "attributeCounter_loop srv self type rating warnings sortColumn sortDirection
             waitTime n s = Some r"
    and start: "I s"
    and step: "loop_step srv self type rating warnings sortColumn sortDirection waitTime n I"
  shows "loop_post srv self type rating warnings sortColumn sortDirection waitTime n I r"
proof -
  from attributeCounter_loop_rule_aux [OF run]
  have "I s \<longrightarrow> loop_step srv self type rating warnings sortColumn sortDirection waitTime n I \<longrightarrow>
     loop_post srv self type rating warnings sortColumn sortDirection waitTime n I r"
    by (rule spec)
  with start step show ?thesis by simp
qed

lemma count_into_fields:
  assumes "count_into key l s = Inr s'"
  shows "ficsCounted s' = ficsCounted s" "pageNumber s' = pageNumber s" "fetched s' = fetched s"
    "relationshipList s' = relationshipList s" "characterList s' = characterList s"
    "tagList s' = tagList s"
  using assms by (auto simp: count_into_def split: option.splits sum.splits)

lemma count_into_Inl:
  assumes "count_into key l s = Inl (e, s')"
  shows "s' = s" "e = TypeError"
  using assms by (auto simp: count_into_def counter_def split: option.splits sum.splits)

lemma select_lists_fields [simp]:
  "ficsCounted (select_lists type w s) = ficsCounted s"
  "pageNumber (select_lists type w s) = pageNumber s"
  "fetched (select_lists type w s) = fetched s"
  "tagCount (select_lists type w s) = tagCount s"
  by (simp_all add: select_lists_def)

lemma count_work_cases:
  obtains (rel) e where "count_work type w s = Inl (e, select_lists type w s)"
      "count_into ''relationships'' (relationshipList (select_lists type w s)) (select_lists type w s)
         = Inl (e, select_lists type w s)"
  | (chr) e s2 where "count_work type w s = Inl (e, s2)"
      "count_into ''relationships'' (relationshipList (select_lists type w s)) (select_lists type w s)
         = Inr s2"
      "count_into ''characters'' (characterList s2) s2 = Inl (e, s2)"
  | (tag) e s2 s3 where "count_work type w s = Inl (e, s3)"
      "count_into ''relationships'' (relationshipList (select_lists type w s)) (select_lists type w s)
         = Inr s2"
      "count_into ''characters'' (characterList s2) s2 = Inr s3"
      "count_into ''tags'' (tagList s3) s3 = Inl (e, s3)"
  | (ok) s2 s3 s4 where "count_work type w s = Inr (s4\<lparr>ficsCounted := ficsCounted s4 + 1\<rparr>)"
      "count_into ''relationships'' (relationshipList (select_lists type w s)) (select_lists type w s)
         = Inr s2"
      "count_into ''characters'' (characterList s2) s2 = Inr s3"
      "count_into ''tags'' (tagList s3) s3 = Inr s4"
proof -
  define s1 where "s1 = select_lists type w s"
  show ?thesis
  proof (cases "count_into ''relationships'' (relationshipList s1) s1")
    case (Inl x)
    obtain e s' where x: "x = (e, s')" by (cases x)
    with Inl count_into_Inl(1) [of "''relationships''" "relationshipList s1" s1 e s']
    have "s' = s1" by simp
    with Inl x show ?thesis
      using rel [of e] by (simp add: count_work_def Let_def s1_def)
  next
    case a: (Inr s2)
    show ?thesis
    proof (cases "count_into ''characters'' (characterList s2) s2")
      case (Inl x)
      obtain e s' where x: "x = (e, s')" by (cases x)
      with Inl count_into_Inl(1) [of "''characters''" "characterList s2" s2 e s']
      have "s' = s2" by simp
      with Inl x a show ?thesis
        using chr [of e s2] by (simp add: count_work_def Let_def s1_def)
    next
      case b: (Inr s3)
      show ?thesis
      proof (cases "count_into ''tags'' (tagList s3) s3")
        case (Inl x)
        obtain e s' where x: "x = (e, s')" by (cases x)
        with Inl count_into_Inl(1) [of "''tags''" "tagList s3" s3 e s']
        have "s' = s3" by simp
        with Inl x a b show ?thesis
          using tag [of e s3 s2] by (simp add: count_work_def Let_def s1_def)
      next
        case (Inr s4)
        with a b show ?thesis
          using ok [of s4 s2 s3] by (simp add: count_work_def Let_def s1_def)
      qed
    qed
  qed
qed

lemma count_work_Inr:
  assumes "count_work type w s = Inr s'"
  shows "ficsCounted s' = ficsCounted s + 1" "pageNumber s' = pageNumber s"
    "fetched s' = fetched s"
proof -
  have "ficsCounted s' = ficsCounted s + 1 \<and> pageNumber s' = pageNumber s
      \<and> fetched s' = fetched s"
  proof (cases type w s rule: count_work_cases)
    case (ok s2 s3 s4)
    with assms have "s' = s4\<lparr>ficsCounted := ficsCounted s4 + 1\<rparr>" by simp
    with count_into_fields(1-3) [OF ok(2)] count_into_fields(1-3) [OF ok(3)]
      count_into_fields(1-3) [OF ok(4)]
    show ?thesis by simp
  qed (use assms in simp_all)
  then show "ficsCounted s' = ficsCounted s + 1" "pageNumber s' = pageNumber s"
    "fetched s' = fetched s" by simp_all
qed

lemma count_work_Inl:
  assumes "count_work type w s = Inl (e, s')"
  shows "e = TypeError" "pageNumber s' = pageNumber s" "fetched s' = fetched s"
proof -
  have "e = TypeError \<and> pageNumber s' = pageNumber s \<and> fetched s' = fetched s"
  proof (cases type w s rule: count_work_cases)
    case (rel e1)
    with assms count_into_Inl(2) [OF rel(2)] show ?thesis by auto
  next
    case (chr e1 s2)
    with assms count_into_Inl(2) [OF chr(3)] count_into_fields(2,3) [OF chr(2)]
    show ?thesis by auto
  next
    case (tag e1 s2 s3)
    with assms count_into_Inl(2) [OF tag(4)] count_into_fields(2,3) [OF tag(2)]
      count_into_fields(2,3) [OF tag(3)]
    show ?thesis by auto
  next
    case (ok s2 s3 s4)
    with assms show ?thesis by simp
  qed
  then show "e = TypeError" "pageNumber s' = pageNumber s" "fetched s' = fetched s"
    by simp_all
qed

lemma count_page_Inr:
  "count_page type ws s = Inr s' \<Longrightarrow>
     ficsCounted s' = ficsCounted s + int (length ws) \<and> pageNumber s' = pageNumber s
     \<and> fetched s' = fetched s"
proof (induction ws arbitrary: s)
  case Nil
  then show ?case by simp
next
  case (Cons w ws)
  then obtain s1 where w: "count_work type w s = Inr s1" and rest: "count_page type ws s1 = Inr s'"
    by (cases "count_work type w s") simp_all
  from Cons.IH [OF rest] count_work_Inr [OF w] show ?case by simp
qed

lemma count_page_Inl:
  "count_page type ws s = Inl (e, s') \<Longrightarrow>
     e = TypeError \<and> pageNumber s' = pageNumber s \<and> fetched s' = fetched s"
proof (induction ws arbitrary: s)
  case Nil
  then show ?case by simp
next
  case (Cons w ws)
  show ?case
  proof (cases "count_work type w s")
    case (Inl x)
    with Cons.prems count_work_Inl [of type w s e s'] show ?thesis by simp
  next
    case (Inr s1)
    with Cons.prems have "count_page type ws s1 = Inl (e, s')" by simp
    from Cons.IH [OF this] count_work_Inr [OF Inr] show ?thesis by simp
  qed
qed

lemma count_page_append:
  "count_page type (xs @ ys) s =
     (case count_page type xs s of Inl x \<Rightarrow> Inl x | Inr s1 \<Rightarrow> count_page type ys s1)"
proof (induction xs arbitrary: s)
  case Nil
  show ?case by simp
next
  case (Cons w ws)
  show ?case by (cases "count_work type w s") (simp_all add: Cons.IH)
qed

lemma fetch_eq:
  "fetch srv q s =
     (case srv (length (fetched s)) q of
        Inl e \<Rightarrow> Inl (e, s\<lparr>fetched := fetched s @ [(q, Inl e)]\<rparr>)
      | Inr p \<Rightarrow> Inr (p, s\<lparr>fetched := fetched s @ [(q, Inr p)]\<rparr>))"
  by (simp add: fetch_def update_def Let_def split: sum.splits)

lemma attributeCounter_body_cases:
  fixes srv self type rating warnings sortColumn sortDirection waitTime s
  defines "q \<equiv> search self rating warnings None sortColumn sortDirection (pageNumber s)"
  defines "b \<equiv> attributeCounter_body srv self type rating warnings sortColumn sortDirection
                  waitTime s"
  obtains (refused) e where "srv (length (fetched s)) q = Inl e"
      "b = Inl (e, s\<lparr>fetched := fetched s @ [(q, Inl e)]\<rparr>)"
  | (counting) p x where "srv (length (fetched s)) q = Inr p"
      "count_page type (results p) (s\<lparr>fetched := fetched s @ [(q, Inr p)]\<rparr>) = Inl x"
      "b = Inl x"
  | (sleeping) p s2 where "srv (length (fetched s)) q = Inr p"
      "count_page type (results p) (s\<lparr>fetched := fetched s @ [(q, Inr p)]\<rparr>) = Inr s2"
      "waitTime < 0" "b = Inl (ValueError, s2\<lparr>pageNumber := pageNumber s2 + 1\<rparr>)"
  | (counted) p s2 where "srv (length (fetched s)) q = Inr p"
      "count_page type (results p) (s\<lparr>fetched := fetched s @ [(q, Inr p)]\<rparr>) = Inr s2"
      "0 \<le> waitTime" "b = Inr (s2\<lparr>pageNumber := pageNumber s2 + 1\<rparr>)"
proof (cases "srv (length (fetched s)) q")
  case (Inl e)
  then show ?thesis
    using refused [of e] by (simp add: b_def attributeCounter_body_def fetch_eq q_def [symmetric])
next
  case p: (Inr p)
  show ?thesis
  proof (cases "count_page type (results p) (s\<lparr>fetched := fetched s @ [(q, Inr p)]\<rparr>)")
    case (Inl x)
    with p show ?thesis
      using counting [of p x]
      by (simp add: b_def attributeCounter_body_def fetch_eq q_def [symmetric])
  next
    case (Inr s2)
    with p show ?thesis
      using sleeping [of p s2] counted [of p s2]
      by (cases "waitTime < 0")
        (simp_all add: b_def attributeCounter_body_def fetch_eq q_def [symmetric] sleep_def)
  qed
qed

lemma page_exchanges_Suc:
  "page_exchanges srv self rating warnings sortColumn sortDirection s0 (Suc k) =
     page_exchanges srv self rating warnings sortColumn sortDirection s0 k
       @ [page_exchange srv self rating warnings sortColumn sortDirection s0 k]"
  by (simp add: page_exchanges_def)

lemma length_page_exchanges [simp]:
  "length (page_exchanges srv self rating warnings sortColumn sortDirection s0 k) = k"
  by (simp add: page_exchanges_def)

lemma works_of_append [simp]: "works_of (xs @ ys) = works_of xs @ works_of ys"
  by (simp add: works_of_def)

lemma works_of_single [simp]:
  "works_of [(q, Inr p)] = results p" "works_of [(q, Inl e)] = []" "works_of [] = []"
  by (simp_all add: works_of_def)

lemma all_answered_append [simp]:
  "all_answered (xs @ ys) = (all_answered xs \<and> all_answered ys)"
  by (simp add: all_answered_def)

lemma all_answered_single [simp]:
  "all_answered [(q, Inr p)]" "\<not> all_answered [(q, Inl e)]" "all_answered []"
  by (simp_all add: all_answered_def)

lemma with_cursor_Inr:
  assumes "count_page type ws (with_cursor k log s) = Inr s2"
  obtains s2' where "count_page type ws s = Inr s2'" "s2 = with_cursor k log s2'"
  using assms by (cases "count_page type ws s") (auto simp: count_page_with_cursor)

lemma reached_start:
  "reached srv self type rating warnings sortColumn sortDirection n s0 0 s0"
  by (simp add: reached_def page_exchanges_def with_cursor_def)

lemma reached_step:
  assumes r: "reached srv self type rating warnings sortColumn sortDirection n s0 k s"
    and lt: "ficsCounted s < n"
    and b: "attributeCounter_body srv self type rating warnings sortColumn sortDirection
              waitTime s = Inr s'"
  shows "reached srv self type rating warnings sortColumn sortDirection n s0 (Suc k) s'"
proof -
  let ?ex = "page_exchanges srv self rating warnings sortColumn sortDirection s0 k"
  let ?q = "search self rating warnings None sortColumn sortDirection (pageNumber s)"
  from r obtain s1 where ans: "all_answered ?ex"
    and s1: "count_page type (works_of ?ex) s0 = Inr s1"
    and s: "s = with_cursor (pageNumber s0 + int k) (fetched s0 @ ?ex) s1"
    by (auto simp: reached_def)
  have len: "length (fetched s) = length (fetched s0) + k" and pn: "pageNumber s = pageNumber s0 + int k"
    using s by simp_all
  have fc: "ficsCounted s = ficsCounted s0 + int (length (works_of ?ex))"
    using s count_page_Inr [OF s1] by simp
  show ?thesis
  proof (rule attributeCounter_body_cases [where srv = srv and self = self and type = type
        and rating = rating and warnings = warnings and sortColumn = sortColumn
        and sortDirection = sortDirection and waitTime = waitTime and s = s], goal_cases)
    case (1 e)
    with b show ?case by simp
  next
    case (2 p x)
    with b show ?case by simp
  next
    case (3 p s2)
    with b show ?case by simp
  next
    case counted: (4 p s2)
    have px: "page_exchange srv self rating warnings sortColumn sortDirection s0 k = (?q, Inr p)"
      using counted(1) len pn by (simp add: page_exchange_def)
    have "s\<lparr>fetched := fetched s @ [(?q, Inr p)]\<rparr> =
        with_cursor (pageNumber s0 + int k) (fetched s0 @ ?ex @ [(?q, Inr p)]) s1"
      using s by (simp add: with_cursor_def)
    with counted(2) obtain s2' where s2': "count_page type (results p) s1 = Inr s2'"
      and s2: "s2 = with_cursor (pageNumber s0 + int k) (fetched s0 @ ?ex @ [(?q, Inr p)]) s2'"
      by (auto elim: with_cursor_Inr)
    have s': "s' = with_cursor (pageNumber s0 + int (Suc k)) (fetched s0 @ ?ex @ [(?q, Inr p)]) s2'"
      using counted(4) b s2 by (simp add: with_cursor_def add.assoc)
    have "count_page type (works_of (?ex @ [(?q, Inr p)])) s0 = Inr s2'"
      using s1 s2' by (simp add: count_page_append)
    with ans s' fc lt show ?case
      by (simp add: reached_def page_exchanges_Suc px)
  qed
qed

lemma attributeCounter_loop_trace:
  assumes run: "attributeCounter_loop srv self type rating warnings sortColumn sortDirection
                  waitTime n s0 = Some r"
  obtains (returned) k f where "r = Inr f"
      "reached srv self type rating warnings sortColumn sortDirection n s0 k f"
      "n \<le> ficsCounted f"
  | (raised) k s x where "r = Inl x"
      "reached srv self type rating warnings sortColumn sortDirection n s0 k s"
      "ficsCounted s < n"
      "attributeCounter_body srv self type rating warnings sortColumn sortDirection
         waitTime s = Inl x"
proof -
  let ?I = "\<lambda>s. \<exists>k. reached srv self type rating warnings sortColumn sortDirection n s0 k s"
  have start: "?I s0"
    by (rule exI [of _ 0]) (rule reached_start)
  have step: "loop_step srv self type rating warnings sortColumn sortDirection waitTime n ?I"
    unfolding loop_step_def
  proof (intro allI impI)
    fix s s1
    assume "?I s" and lt: "ficsCounted s < n"
      and b: "attributeCounter_body srv self type rating warnings sortColumn sortDirection
                waitTime s = Inr s1"
    then obtain k where "reached srv self type rating warnings sortColumn sortDirection n s0 k s"
      by (elim exE)
    from reached_step [OF this lt b] show "?I s1" by (rule exI)
  qed
  from attributeCounter_loop_rule [OF run, of ?I, OF start step]
  have "loop_post srv self type rating warnings sortColumn sortDirection waitTime n ?I r" .
  then show ?thesis
    unfolding loop_post_def
  proof (elim disjE exE conjE)
    fix f k
    assume "r = Inr f" "n \<le> ficsCounted f"
      "reached srv self type rating warnings sortColumn sortDirection n s0 k f"
    then show ?thesis using returned [of f k] by simp
  next
    fix x s' k
    assume "r = Inl x" "ficsCounted s' < n"
      "attributeCounter_body srv self type rating warnings sortColumn sortDirection
         waitTime s' = Inl x"
      "reached srv self type rating warnings sortColumn sortDirection n s0 k s'"
    then show ?thesis using raised [of x k s'] by simp
  qed
qed

lemma grows_table_refl: "grows_table t t"
  by (simp add: grows_table_def)

lemma grows_table_trans: "grows_table a b \<Longrightarrow> grows_table b c \<Longrightarrow> grows_table a c"
  unfolding grows_table_def by (meson order_trans)

lemma grows_refl: "grows T T"
  by (simp add: grows_def grows_table_refl)

lemma grows_trans: "grows A B \<Longrightarrow> grows B C \<Longrightarrow> grows A C"
  unfolding grows_def by (meson grows_table_trans)

lemma grows_table_counter_loop: "grows_table t (counter_loop t xs)"
  by (simp add: grows_table_def counter_loop_apply)

lemma grows_update: "T K = Some t \<Longrightarrow> grows_table t t' \<Longrightarrow> grows T (T(K \<mapsto> t'))"
  by (auto simp: grows_def grows_table_refl)

lemma grows_count_into:
  "grows (tagCount s) (tagCount (final_locals (count_into key l s)))"
proof (cases "tagCount s key")
  case None
  then show ?thesis by (simp add: count_into_def final_locals_def grows_refl)
next
  case (Some t)
  then show ?thesis
    by (cases l)
      (simp_all add: count_into_def final_locals_def counter_def grows_refl grows_update
        grows_table_counter_loop)
qed

lemma grows_count_into_Inr:
  "count_into key l s = Inr s' \<Longrightarrow> grows (tagCount s) (tagCount s')"
  using grows_count_into [of s key l] by (simp add: final_locals_def)

lemma grows_count_work:
  "grows (tagCount s) (tagCount (final_locals (count_work type w s)))"
proof (cases type w s rule: count_work_cases)
  case (rel e)
  then show ?thesis by (simp add: final_locals_def grows_refl)
next
  case (chr e s2)
  from grows_count_into_Inr [OF chr(2)] chr(1)
  show ?thesis by (simp add: final_locals_def)
next
  case (tag e s2 s3)
  from grows_trans [OF grows_count_into_Inr [OF tag(2)] grows_count_into_Inr [OF tag(3)]] tag(1)
  show ?thesis by (simp add: final_locals_def)
next
  case (ok s2 s3 s4)
  from grows_trans [OF grows_trans [OF grows_count_into_Inr [OF ok(2)]
        grows_count_into_Inr [OF ok(3)]] grows_count_into_Inr [OF ok(4)]] ok(1)
  show ?thesis by (simp add: final_locals_def)
qed

lemma grows_count_work_Inr:
  "count_work type w s = Inr s' \<Longrightarrow> grows (tagCount s) (tagCount s')"
  using grows_count_work [of s type w] by (simp add: final_locals_def)

lemma grows_count_page:
  "grows (tagCount s) (tagCount (final_locals (count_page type ws s)))"
proof (induction ws arbitrary: s)
  case Nil
  show ?case by (simp add: final_locals_def grows_refl)
next
  case (Cons w ws)
  show ?case
  proof (cases "count_work type w s")
    case (Inl x)
    with grows_count_work [of s type w] show ?thesis by simp
  next
    case (Inr s1)
    from grows_trans [OF grows_count_work_Inr [OF Inr] Cons.IH [of s1]] Inr
    show ?thesis by simp
  qed
qed

lemma grows_body:
  "grows (tagCount s)
     (tagCount (final_locals (attributeCounter_body srv self type rating warnings sortColumn
        sortDirection waitTime s)))"
proof (rule attributeCounter_body_cases [where srv = srv and self = self and type = type
        and rating = rating and warnings = warnings and sortColumn = sortColumn
        and sortDirection = sortDirection and waitTime = waitTime and s = s], goal_cases)
  case (1 e)
  then show ?case by (simp add: final_locals_def grows_refl)
next
  case (2 p x)
  with grows_count_page [of "s\<lparr>fetched := fetched s @
      [(search self rating warnings None sortColumn sortDirection (pageNumber s), Inr p)]\<rparr>"
      type "results p"]
  show ?case by (simp add: final_locals_def)
next
  case (3 p s2)
  with grows_count_page [of "s\<lparr>fetched := fetched s @
      [(search self rating warnings None sortColumn sortDirection (pageNumber s), Inr p)]\<rparr>"
      type "results p"]
  show ?case by (simp add: final_locals_def)
next
  case (4 p s2)
  with grows_count_page [of "s\<lparr>fetched := fetched s @
      [(search self rating warnings None sortColumn sortDirection (pageNumber s), Inr p)]\<rparr>"
      type "results p"]
  show ?case by (simp add: final_locals_def)
qed

lemma grows_loop:
  assumes run: "attributeCounter_loop srv self type rating warnings sortColumn sortDirection
                  waitTime n s0 = Some r"
  shows "grows (tagCount s0) (tagCount (final_locals r))"
proof -
  let ?I = "\<lambda>s. grows (tagCount s0) (tagCount s)"
  have step: "loop_step srv self type rating warnings sortColumn sortDirection waitTime n ?I"
    unfolding loop_step_def
  proof (intro allI impI)
    fix s s1
    assume "?I s" and "attributeCounter_body srv self type rating warnings sortColumn
        sortDirection waitTime s = Inr s1"
    with grows_trans [OF _ grows_body [of s srv self type rating warnings sortColumn
          sortDirection waitTime], of "tagCount s0"]
    show "?I s1" by (simp add: final_locals_def)
  qed
  from attributeCounter_loop_rule [OF run, of ?I, OF grows_refl step]
  have "loop_post srv self type rating warnings sortColumn sortDirection waitTime n ?I r" .
  then show ?thesis
    unfolding loop_post_def
  proof (elim disjE exE conjE)
    fix f
    assume "r = Inr f" "?I f"
    then show ?thesis by (simp add: final_locals_def)
  next
    fix x s'
    assume "r = Inl x" "?I s'" and "attributeCounter_body srv self type rating warnings sortColumn
        sortDirection waitTime s' = Inl x"
    with grows_trans [OF _ grows_body [of s' srv self type rating warnings sortColumn
          sortDirection waitTime], of "tagCount s0"]
    show ?thesis by simp
  qed
qed

lemma count_into_None: "tagCount s key = None \<Longrightarrow> count_into key l s = Inr s"
  by (simp add: count_into_def)

lemma count_into_Some:
  "tagCount s key = Some t \<Longrightarrow>
   count_into key (Some xs) s = Inr (s\<lparr>tagCount := (tagCount s)(key \<mapsto> counter_loop t xs)\<rparr>)"
  by (simp add: count_into_def counter_def)

lemma count_into_selected:
  "count_into key (Some xs) s =
     Inr (s\<lparr>tagCount := (case tagCount s key of None \<Rightarrow> tagCount s
                          | Some t \<Rightarrow> (tagCount s)(key \<mapsto> counter_loop t xs))\<rparr>)"
  by (cases "tagCount s key") (simp_all add: count_into_None count_into_Some)

lemma count_work_relationships:
  assumes "tagCount s ''characters'' = None" "tagCount s ''tags'' = None"
  shows "count_work ''relationships'' w s =
     Inr (s\<lparr>relationshipList := Some (work_relationships w),
            tagCount := (case tagCount s ''relationships'' of None \<Rightarrow> tagCount s
               | Some t \<Rightarrow> (tagCount s)(''relationships'' \<mapsto> counter_loop t (work_relationships w))),
            ficsCounted := ficsCounted s + 1\<rparr>)"
  using assms
  by (cases "tagCount s ''relationships''")
    (simp_all add: count_work_def select_lists_def Let_def count_into_selected count_into_None)

lemma count_work_characters:
  assumes "tagCount s ''relationships'' = None" "tagCount s ''tags'' = None"
  shows "count_work ''characters'' w s =
     Inr (s\<lparr>characterList := Some (work_characters w),
            tagCount := (case tagCount s ''characters'' of None \<Rightarrow> tagCount s
               | Some t \<Rightarrow> (tagCount s)(''characters'' \<mapsto> counter_loop t (work_characters w))),
            ficsCounted := ficsCounted s + 1\<rparr>)"
  using assms
  by (cases "tagCount s ''characters''")
    (simp_all add: count_work_def select_lists_def Let_def count_into_selected count_into_None)

lemma count_work_tags:
  assumes "tagCount s ''relationships'' = None" "tagCount s ''characters'' = None"
  shows "count_work ''tags'' w s =
     Inr (s\<lparr>tagList := Some (work_tags w),
            tagCount := (case tagCount s ''tags'' of None \<Rightarrow> tagCount s
               | Some t \<Rightarrow> (tagCount s)(''tags'' \<mapsto> counter_loop t (work_tags w))),
            ficsCounted := ficsCounted s + 1\<rparr>)"
  using assms
  by (cases "tagCount s ''tags''")
    (simp_all add: count_work_def select_lists_def Let_def count_into_selected count_into_None)

lemma count_into_count_in:
  "count_into key (Some xs) s = Inr (s\<lparr>tagCount := count_in key xs (tagCount s)\<rparr>)"
  by (simp add: count_into_selected count_in_def)

lemma count_in_apply:
  "count_in K xs T K' =
     (if K' = K then (case T K of None \<Rightarrow> None | Some t \<Rightarrow> Some (counter_loop t xs)) else T K')"
  by (simp add: count_in_def split: option.splits)

lemma count_work_other:
  assumes "type \<noteq> ''relationships''" "type \<noteq> ''characters''" "type \<noteq> ''tags''"
  shows "count_work type w s =
     Inr (s\<lparr>relationshipList := Some (work_relationships w),
            characterList := Some (work_characters w),
            tagList := Some (work_tags w),
            tagCount := count_in ''tags'' (work_tags w)
              (count_in ''characters'' (work_characters w)
                (count_in ''relationships'' (work_relationships w) (tagCount s))),
            ficsCounted := ficsCounted s + 1\<rparr>)"
  using assms
  by (simp add: count_work_def select_lists_def Let_def count_into_count_in)

lemma count_work_tally:
  assumes "fits type (tagCount s)"
  shows "\<exists>s'. count_work type w s = Inr s' \<and> tagCount s' = tally type (tagCount s) [w]"
proof -
  consider (r) "type = ''relationships''" | (c) "type = ''characters''" | (t) "type = ''tags''"
    | (o) "type \<noteq> ''relationships''" "type \<noteq> ''characters''" "type \<noteq> ''tags''"
    by blast
  then show ?thesis
  proof cases
    case r
    with assms have n: "tagCount s ''characters'' = None" "tagCount s ''tags'' = None"
      by (simp_all add: fits_def selection_def)
    have "tally ''relationships'' (tagCount s) [w] K =
        (case tagCount s ''relationships'' of None \<Rightarrow> tagCount s
               | Some t \<Rightarrow> (tagCount s)(''relationships'' \<mapsto> counter_loop t (work_relationships w))) K"
      for K
      by (simp add: tally_def selection_def split: option.splits)
    then show ?thesis
      using count_work_relationships [OF n, of w] r by (simp add: fun_eq_iff)
  next
    case c
    with assms have n: "tagCount s ''relationships'' = None" "tagCount s ''tags'' = None"
      by (simp_all add: fits_def selection_def)
    have "tally ''characters'' (tagCount s) [w] K =
        (case tagCount s ''characters'' of None \<Rightarrow> tagCount s
               | Some t \<Rightarrow> (tagCount s)(''characters'' \<mapsto> counter_loop t (work_characters w))) K"
      for K
      by (simp add: tally_def selection_def split: option.splits)
    then show ?thesis
      using count_work_characters [OF n, of w] c by (simp add: fun_eq_iff)
  next
    case t
    with assms have n: "tagCount s ''relationships'' = None" "tagCount s ''characters'' = None"
      by (simp_all add: fits_def selection_def)
    have "tally ''tags'' (tagCount s) [w] K =
        (case tagCount s ''tags'' of None \<Rightarrow> tagCount s
               | Some t \<Rightarrow> (tagCount s)(''tags'' \<mapsto> counter_loop t (work_tags w))) K"
      for K
      by (simp add: tally_def selection_def split: option.splits)
    then show ?thesis
      using count_work_tags [OF n, of w] t by (simp add: fun_eq_iff)
  next
    case o
    have "tally type (tagCount s) [w] K =
        count_in ''tags'' (work_tags w)
              (count_in ''characters'' (work_characters w)
                (count_in ''relationships'' (work_relationships w) (tagCount s))) K"
      for K
      using o by (simp add: tally_def selection_def count_in_apply split: option.splits)
    then show ?thesis
      using count_work_other [OF o, of w s] by (simp add: fun_eq_iff)
  qed
qed

lemma tally_Nil: "tally type T [] = T"
  by (auto simp: tally_def fun_eq_iff split: option.splits)

lemma tally_append: "tally type (tally type T xs) ys = tally type T (xs @ ys)"
  by (auto simp: tally_def fun_eq_iff counter_loop_append split: option.splits)

lemma fits_tally: "fits type T \<Longrightarrow> fits type (tally type T ws)"
  by (auto simp: fits_def tally_def split: option.splits)

lemma count_page_tally:
  "fits type (tagCount s) \<Longrightarrow>
   \<exists>s'. count_page type ws s = Inr s' \<and> tagCount s' = tally type (tagCount s) ws"
proof (induction ws arbitrary: s)
  case Nil
  show ?case by (simp add: tally_Nil)
next
  case (Cons w ws)
  from count_work_tally [OF Cons.prems, of w] obtain s1
    where w: "count_work type w s = Inr s1" and t: "tagCount s1 = tally type (tagCount s) [w]"
    by blast
  from Cons.prems t have "fits type (tagCount s1)" by (simp add: fits_tally)
  from Cons.IH [OF this] obtain s' where "count_page type ws s1 = Inr s'"
    and "tagCount s' = tally type (tagCount s1) ws"
    by blast
  with w t tally_append [of type "tagCount s" "[w]" ws] show ?case by simp
qed

lemma loop_unfold_stop:
  "\<not> ficsCounted s < n \<Longrightarrow>
   attributeCounter_loop srv self type rating warnings sortColumn sortDirection waitTime n s
     = Some (Inr s)"
  by (subst attributeCounter_loop.simps) simp

lemma loop_unfold_step:
  "ficsCounted s < n \<Longrightarrow>
   attributeCounter_body srv self type rating warnings sortColumn sortDirection waitTime s = Inr s1 \<Longrightarrow>
   attributeCounter_loop srv self type rating warnings sortColumn sortDirection waitTime n s
     = attributeCounter_loop srv self type rating warnings sortColumn sortDirection waitTime n s1"
  by (subst attributeCounter_loop.simps) simp

lemma loop_unfold_raise:
  "ficsCounted s < n \<Longrightarrow>
   attributeCounter_body srv self type rating warnings sortColumn sortDirection waitTime s = Inl x \<Longrightarrow>
   attributeCounter_loop srv self type rating warnings sortColumn sortDirection waitTime n s
     = Some (Inl x)"
  by (subst attributeCounter_loop.simps) simp

lemma body_counted:
  assumes fit: "fits type (tagCount s)"
    and ans: "srv (length (fetched s))
                (search self rating warnings None sortColumn sortDirection (pageNumber s)) = Inr p"
    and wait: "0 \<le> waitTime"
  shows "\<exists>s'. attributeCounter_body srv self type rating warnings sortColumn sortDirection
                 waitTime s = Inr s'
           \<and> tagCount s' = tally type (tagCount s) (results p)
           \<and> ficsCounted s' = ficsCounted s + int (length (results p))
           \<and> pageNumber s' = pageNumber s + 1
           \<and> fetched s' = fetched s @
                [(search self rating warnings None sortColumn sortDirection (pageNumber s), Inr p)]"
proof -
  let ?q = "search self rating warnings None sortColumn sortDirection (pageNumber s)"
  let ?s1 = "s\<lparr>fetched := fetched s @ [(?q, Inr p)]\<rparr>"
  from fit have "fits type (tagCount ?s1)" by simp
  from count_page_tally [OF this, of "results p"] obtain s2
    where c: "count_page type (results p) ?s1 = Inr s2"
      and t: "tagCount s2 = tally type (tagCount s) (results p)"
    by auto
  from count_page_Inr [OF c] t c ans wait show ?thesis
    by (simp add: attributeCounter_body_def fetch_eq sleep_def)
qed

subsection \<open>The start of a call, and the older module\<close>

lemma fits_start: "fits type (tagCount (attributeCounter_start type startPage None))"
  by (simp add: fits_def attributeCounter_start_def selection_def)

lemma count_work_A_eq:
  "count_work_A type w s =
     s\<lparr>tagCount_A := counter_loop (tagCount_A s)
          (if type = ''relationships'' then work_relationships w
           else if type = ''characters'' then work_characters w
           else work_tags w),
       ficsCounted_A := ficsCounted_A s + 1\<rparr>"
  by (simp add: count_work_A_def attributeList_A_def Let_def)

lemma loop_A_unfold_stop:
  "\<not> ficsCounted_A s \<le> n \<Longrightarrow>
   AO3_analyzer_attributeCounter_loop srv self type rating warnings sortColumn sortDirection n s
     = Some (Inr s)"
  by (subst AO3_analyzer_attributeCounter_loop.simps) simp

lemma loop_A_unfold_step:
  "ficsCounted_A s \<le> n \<Longrightarrow>
   AO3_analyzer_attributeCounter_body srv self type rating warnings sortColumn sortDirection s
     = Inr s1 \<Longrightarrow>
   AO3_analyzer_attributeCounter_loop srv self type rating warnings sortColumn sortDirection n s
     = AO3_analyzer_attributeCounter_loop srv self type rating warnings sortColumn sortDirection n s1"
  by (subst AO3_analyzer_attributeCounter_loop.simps) simp

subsection \<open>Whole calls\<close>

lemma attributeCounter_run_cases:
  assumes run: "attributeCounter_run srv self type rating warnings sampleSize sortColumn
      sortDirection startPage waitTime tagCount' = Some r"
  obtains (sample) n where "sampleSize = Some n"
      "attributeCounter_loop srv self type rating warnings sortColumn sortDirection waitTime n
         (attributeCounter_start type startPage tagCount') = Some r"
  | (refused) e where "sampleSize = None"
      "srv 0 (search self rating warnings None [] [] 1) = Inl e"
      "r = Inl (e, (attributeCounter_start type startPage tagCount')
                  \<lparr>fetched := [(search self rating warnings None [] [] 1, Inl e)]\<rparr>)"
  | (total) p where "sampleSize = None"
      "srv 0 (search self rating warnings None [] [] 1) = Inr p"
      "attributeCounter_loop srv self type rating warnings sortColumn sortDirection waitTime
         (total_results p)
         ((attributeCounter_start type startPage tagCount')
            \<lparr>fetched := [(search self rating warnings None [] [] 1, Inr p)]\<rparr>) = Some r"
proof (cases sampleSize)
  case (Some n)
  with run sample [of n] show ?thesis by (simp add: attributeCounter_run_def)
next
  case None
  have f0: "fetched (attributeCounter_start type startPage tagCount') = []"
    by (simp add: attributeCounter_start_def)
  show ?thesis
  proof (cases "srv 0 (search self rating warnings None [] [] 1)")
    case (Inl e)
    with None run refused [of e] show ?thesis
      by (simp add: attributeCounter_run_def fetch_eq f0)
  next
    case (Inr p)
    with None run total [of p] show ?thesis
      by (simp add: attributeCounter_run_def fetch_eq f0)
  qed
qed

lemma loop_returned_tally:
  assumes run: "attributeCounter_loop srv self type rating warnings sortColumn sortDirection
                  waitTime n s0 = Some (Inr f)"
    and fit: "fits type (tagCount s0)"
  shows "tagCount f = tally type (tagCount s0) (works_of (drop (length (fetched s0)) (fetched f)))"
proof (rule attributeCounter_loop_trace [OF run], goal_cases)
  case (1 k f')
  let ?ex = "page_exchanges srv self rating warnings sortColumn sortDirection s0 k"
  from 1(2) obtain s1 where c: "count_page type (works_of ?ex) s0 = Inr s1"
    and f': "f' = with_cursor (pageNumber s0 + int k) (fetched s0 @ ?ex) s1"
    by (auto simp: reached_def)
  from count_page_tally [OF fit, of "works_of ?ex"] c
  have "tagCount s1 = tally type (tagCount s0) (works_of ?ex)" by auto
  with 1(1) f' show ?case by simp
next
  case (2 k s x)
  then show ?case by simp
qed

lemma run_returned_tally:
  assumes run: "attributeCounter_run srv self type rating warnings sampleSize sortColumn
      sortDirection startPage waitTime tagCount' = Some (Inr f)"
    and fit: "fits type (tagCount (attributeCounter_start type startPage tagCount'))"
  shows "tagCount f = tally type (tagCount (attributeCounter_start type startPage tagCount'))
           (consumed sampleSize f)"
proof (rule attributeCounter_run_cases [OF run], goal_cases)
  case (1 n)
  from loop_returned_tally [OF 1(2) fit] 1(1) show ?case
    by (simp add: consumed_def attributeCounter_start_def)
next
  case (2 e)
  then show ?case by simp
next
  case (3 p)
  let ?s1 = "(attributeCounter_start type startPage tagCount')
            \<lparr>fetched := [(search self rating warnings None [] [] 1, Inr p)]\<rparr>"
  from fit have "fits type (tagCount ?s1)" by simp
  from loop_returned_tally [OF 3(3) this] 3(1) show ?case
    by (simp add: consumed_def)
qed

lemma run_grows:
  assumes run: "attributeCounter_run srv self type rating warnings sampleSize sortColumn
      sortDirection startPage waitTime tagCount' = Some r"
  shows "grows (tagCount (attributeCounter_start type startPage tagCount'))
           (tagCount (final_locals r))"
proof (rule attributeCounter_run_cases [OF run], goal_cases)
  case (1 n)
  from grows_loop [OF 1(2)] show ?case .
next
  case (2 e)
  then show ?case by (simp add: final_locals_def grows_refl)
next
  case (3 p)
  from grows_loop [OF 3(3)] show ?case by simp
qed

lemma counter_loop_count_of:
  "count_of (counter_loop t xs) a = count_of t a + int (count_list xs a)"
  by (simp add: count_of_def counter_loop_apply count_list_0_iff split: option.splits)

lemma counter_loop_dom: "dom (counter_loop t xs) = dom t \<union> set xs"
  by (auto simp: dom_def counter_loop_apply split: if_splits)

lemma page_exchange_shift:
  assumes "pageNumber s1 = pageNumber s + 1" "length (fetched s1) = Suc (length (fetched s))"
  shows "page_exchange srv self rating warnings sortColumn sortDirection s (Suc i) =
         page_exchange srv self rating warnings sortColumn sortDirection s1 i"
  using assms by (simp add: page_exchange_def add.assoc)

lemma page_exchanges_shift:
  assumes "pageNumber s1 = pageNumber s + 1" "length (fetched s1) = Suc (length (fetched s))"
  shows "page_exchanges srv self rating warnings sortColumn sortDirection s (Suc k) =
         page_exchange srv self rating warnings sortColumn sortDirection s 0
           # page_exchanges srv self rating warnings sortColumn sortDirection s1 k"
proof -
  have "[0..<Suc k] = 0 # map Suc [0..<k]"
    by (simp add: upt_conv_Cons map_Suc_upt del: upt_Suc)
  then show ?thesis
    by (simp add: page_exchanges_def page_exchange_shift [OF assms] del: upt_Suc)
qed

lemma loop_pages:
  assumes "fits type (tagCount s)" "0 \<le> waitTime"
    and "all_answered (page_exchanges srv self rating warnings sortColumn sortDirection s k)"
    and "\<forall>j<k. ficsCounted s + int (length (works_of
            (page_exchanges srv self rating warnings sortColumn sortDirection s j))) < n"
    and "n \<le> ficsCounted s + int (length (works_of
            (page_exchanges srv self rating warnings sortColumn sortDirection s k)))"
  shows "\<exists>f. attributeCounter_loop srv self type rating warnings sortColumn sortDirection
                waitTime n s = Some (Inr f)
           \<and> fetched f = fetched s
               @ page_exchanges srv self rating warnings sortColumn sortDirection s k
           \<and> tagCount f = tally type (tagCount s)
               (works_of (page_exchanges srv self rating warnings sortColumn sortDirection s k))
           \<and> ficsCounted f = ficsCounted s + int (length (works_of
               (page_exchanges srv self rating warnings sortColumn sortDirection s k)))
           \<and> pageNumber f = pageNumber s + int k"
  using assms
proof (induction k arbitrary: s)
  case 0
  then show ?case
    by (simp add: page_exchanges_def loop_unfold_stop tally_Nil)
next
  case (Suc k)
  let ?q = "search self rating warnings None sortColumn sortDirection (pageNumber s)"
  from Suc.prems(4) have lt: "ficsCounted s < n"
    by (auto simp: page_exchanges_def dest: spec [of _ 0])
  from Suc.prems(3) obtain p where ans: "srv (length (fetched s)) ?q = Inr p"
    by (cases "srv (length (fetched s)) ?q")
      (auto simp: page_exchanges_def page_exchange_def all_answered_def upt_conv_Cons
        simp del: upt_Suc)
  from body_counted [where srv = srv and s = s, OF Suc.prems(1) ans Suc.prems(2)]
  obtain s1 where b: "attributeCounter_body srv self type rating warnings sortColumn
        sortDirection waitTime s = Inr s1"
    and t1: "tagCount s1 = tally type (tagCount s) (results p)"
    and c1: "ficsCounted s1 = ficsCounted s + int (length (results p))"
    and p1: "pageNumber s1 = pageNumber s + 1"
    and l1: "fetched s1 = fetched s @ [(?q, Inr p)]"
    by blast
  from l1 have len: "length (fetched s1) = Suc (length (fetched s))" by simp
  have px: "page_exchange srv self rating warnings sortColumn sortDirection s 0 = (?q, Inr p)"
    using ans by (simp add: page_exchange_def)
  note sh = page_exchanges_shift [of s1 s, OF p1 len, where srv = srv and self = self
      and rating = rating and warnings = warnings and sortColumn = sortColumn
      and sortDirection = sortDirection]
  let ?ex1 = "page_exchanges srv self rating warnings sortColumn sortDirection s1"
  have fit1: "fits type (tagCount s1)"
    using Suc.prems(1) t1 by (simp add: fits_tally)
  have ans1: "all_answered (?ex1 k)"
    using Suc.prems(3) by (simp add: sh px all_answered_def)
  have lt1: "\<forall>j<k. ficsCounted s1 + int (length (works_of (?ex1 j))) < n"
  proof (intro allI impI)
    fix j assume "j < k"
    then have "Suc j < Suc k" by simp
    with Suc.prems(4) have "ficsCounted s + int (length (works_of
        (page_exchanges srv self rating warnings sortColumn sortDirection s (Suc j)))) < n"
      by blast
    then show "ficsCounted s1 + int (length (works_of (?ex1 j))) < n"
      using works_of_append [of "[(?q, Inr p)]" "?ex1 j"]
      by (simp add: sh px c1 del: works_of_append)
  qed
  have ge1: "n \<le> ficsCounted s1 + int (length (works_of (?ex1 k)))"
    using Suc.prems(5) works_of_append [of "[(?q, Inr p)]" "?ex1 k"]
    by (simp add: sh px c1 del: works_of_append)
  from Suc.IH [OF fit1 Suc.prems(2) ans1 lt1 ge1] obtain f
    where f: "attributeCounter_loop srv self type rating warnings sortColumn sortDirection
                waitTime n s1 = Some (Inr f)"
      and fl: "fetched f = fetched s1 @ ?ex1 k"
      and ft: "tagCount f = tally type (tagCount s1) (works_of (?ex1 k))"
      and fc: "ficsCounted f = ficsCounted s1 + int (length (works_of (?ex1 k)))"
      and fp: "pageNumber f = pageNumber s1 + int k"
    by blast
  have w: "works_of (page_exchanges srv self rating warnings sortColumn sortDirection s (Suc k))
      = results p @ works_of (?ex1 k)"
    using works_of_append [of "[(?q, Inr p)]" "?ex1 k"]
    by (simp add: sh px del: works_of_append)
  show ?case
    unfolding w
    using f fl ft fc fp
    by (simp add: loop_unfold_step [OF lt b] sh px l1 t1 c1 p1 tally_append)
qed

lemma start_fields [simp]:
  "ficsCounted (attributeCounter_start type startPage tagCount') = 0"
  "pageNumber (attributeCounter_start type startPage tagCount') = startPage"
  "fetched (attributeCounter_start type startPage tagCount') = []"
  by (simp_all add: attributeCounter_start_def)

lemma example_run:
  "\<exists>f. attributeCounter_run one_work_archive (example_fandom 1) ''tags'' None None (Some 2)
          [] [] 1 0 None = Some (Inr f)
     \<and> fetched f =
         [(search (example_fandom 1) None None None [] [] 1,
           Inr \<lparr>total_results = 1, results = [example_work]\<rparr>),
          (search (example_fandom 1) None None None [] [] 2,
           Inr \<lparr>total_results = 1, results = [example_work]\<rparr>)]"
proof -
  let ?s = "attributeCounter_start ''tags'' 1 None"
  have ex: "page_exchanges one_work_archive (example_fandom 1) None None [] [] ?s j =
      map (\<lambda>i. (search (example_fandom 1) None None None [] [] (1 + int i),
           Inr \<lparr>total_results = 1, results = [example_work]\<rparr>)) [0..<j]" for j
    by (simp add: page_exchanges_def page_exchange_def one_work_archive_def)
  have len: "length (works_of (page_exchanges one_work_archive (example_fandom 1) None None
      [] [] ?s j)) = j" for j
    unfolding ex by (induction j) (simp_all add: works_of_def)
  have ans: "all_answered (page_exchanges one_work_archive (example_fandom 1) None None
      [] [] ?s 2)"
    unfolding ex by (simp add: all_answered_def list_all_iff)
  have "\<exists>f. attributeCounter_loop one_work_archive (example_fandom 1) ''tags'' None None [] []
                0 2 ?s = Some (Inr f)
           \<and> fetched f = fetched ?s
               @ page_exchanges one_work_archive (example_fandom 1) None None [] [] ?s 2
           \<and> tagCount f = tally ''tags'' (tagCount ?s)
               (works_of (page_exchanges one_work_archive (example_fandom 1) None None [] [] ?s 2))
           \<and> ficsCounted f = ficsCounted ?s + int (length (works_of
               (page_exchanges one_work_archive (example_fandom 1) None None [] [] ?s 2)))
           \<and> pageNumber f = pageNumber ?s + int 2"
    by (rule loop_pages) (simp_all add: fits_start len ans)
  then show ?thesis
    by (auto simp: attributeCounter_run_def ex eval_nat_numeral)
qed

subsection \<open>Requests that fail\<close>

lemma failing_run:
  "attributeCounter_run failing_archive (example_fandom 10) ''tags'' None None (Some 5)
          [] [] 1 0 (Some [''tags'' \<mapsto> [''fluff'' \<mapsto> 3]]) = 
    Some (Inl (AO3Error ''HTTP 429'',
      \<lparr>tagCount = [''tags'' \<mapsto> [''fluff'' \<mapsto> 5, ''angst'' \<mapsto> 2]], ficsCounted = 2, pageNumber = 3,
       relationshipList = None, characterList = None, tagList = Some [''fluff'', ''angst''],
       fetched = [(search (example_fandom 10) None None None [] [] 1,
           Inr \<lparr>total_results = 10, results = [example_work]\<rparr>),
          (search (example_fandom 10) None None None [] [] 2,
           Inr \<lparr>total_results = 10, results = [example_work]\<rparr>),
          (search (example_fandom 10) None None None [] [] 3, Inl (AO3Error ''HTTP 429''))]\<rparr>))"
  by (simp add: attributeCounter_run_def attributeCounter_start_def attributeCounter_loop.simps
      attributeCounter_body_def fetch_eq failing_archive_def count_work_tags sleep_def
      example_work_def setdefault_def)

lemma all_answered_no_error: "all_answered xs \<Longrightarrow> (q, Inl e) \<notin> set xs"
  by (auto simp: all_answered_def list_all_iff)

lemma loop_archive_error:
  assumes run: "attributeCounter_loop srv self type rating warnings sortColumn sortDirection
                  waitTime n s0 = Some r"
    and err: "(q, Inl e) \<in> set (fetched (final_locals r))"
    and start: "all_answered (fetched s0)"
  shows "\<exists>f ex s1. r = Inl (e, f) \<and> fetched f = fetched s0 @ ex @ [(q, Inl e)]
           \<and> all_answered ex \<and> count_page type (works_of ex) s0 = Inr s1
           \<and> tagCount f = tagCount s1"
proof (rule attributeCounter_loop_trace [OF run], goal_cases)
  case (1 k f)
  let ?ex = "page_exchanges srv self rating warnings sortColumn sortDirection s0 k"
  from 1(2) have "all_answered ?ex" and "fetched f = fetched s0 @ ?ex"
    by (auto simp: reached_def)
  with start have "all_answered (fetched f)" by simp
  from all_answered_no_error [OF this, of q e] err 1(1) show ?case
    by (simp add: final_locals_def)
next
  case (2 k s x)
  let ?ex = "page_exchanges srv self rating warnings sortColumn sortDirection s0 k"
  let ?q = "search self rating warnings None sortColumn sortDirection (pageNumber s)"
  from 2(2) obtain s1 where ans: "all_answered ?ex"
    and s1: "count_page type (works_of ?ex) s0 = Inr s1"
    and s: "s = with_cursor (pageNumber s0 + int k) (fetched s0 @ ?ex) s1"
    by (auto simp: reached_def)
  from s have log: "fetched s = fetched s0 @ ?ex" and tc: "tagCount s = tagCount s1"
    by simp_all
  from start ans log have sa: "all_answered (fetched s)" by simp
  show ?case
  proof (rule attributeCounter_body_cases [where srv = srv and self = self and type = type
        and rating = rating and warnings = warnings and sortColumn = sortColumn
        and sortDirection = sortDirection and waitTime = waitTime and s = s], goal_cases)
    case (1 e')
    with 2(4) have x: "x = (e', s\<lparr>fetched := fetched s @ [(?q, Inl e')]\<rparr>)" by simp
    with err 2(1) all_answered_no_error [OF sa, of q e] have "q = ?q" "e = e'"
      by (auto simp: final_locals_def)
    with x 2(1) log tc ans s1 show ?case by simp
  next
    case (2 p y)
    obtain e' f' where y: "y = (e', f')" by (cases y)
    from 2(2) y count_page_Inl [of type "results p" "s\<lparr>fetched := fetched s @ [(?q, Inr p)]\<rparr>" e' f']
    have "fetched f' = fetched s @ [(?q, Inr p)]" by simp
    with sa have "all_answered (fetched f')" by simp
    from all_answered_no_error [OF this, of q e] err \<open>r = Inl x\<close> 2(3) y
      \<open>attributeCounter_body srv self type rating warnings sortColumn sortDirection
         waitTime s = Inl x\<close>
    show ?case by (simp add: final_locals_def)
  next
    case (3 p s2)
    from count_page_Inr [OF 3(2)] have "fetched s2 = fetched s @ [(?q, Inr p)]" by simp
    with sa have "all_answered (fetched (s2\<lparr>pageNumber := pageNumber s2 + 1\<rparr>))" by simp
    from all_answered_no_error [OF this, of q e] err \<open>r = Inl x\<close> 3(4)
      \<open>attributeCounter_body srv self type rating warnings sortColumn sortDirection
         waitTime s = Inl x\<close>
    show ?case by (simp add: final_locals_def)
  next
    case (4 p s2)
    with \<open>attributeCounter_body srv self type rating warnings sortColumn sortDirection
         waitTime s = Inl x\<close> show ?case by simp
  qed
qed

lemma loop_ends_at_error:
  assumes err: "\<And>q. \<exists>e. srv k q = Inl e"
  shows "length (fetched s) \<le> k \<Longrightarrow>
     \<exists>r. attributeCounter_loop srv self type rating warnings sortColumn sortDirection
            waitTime n s = Some r"
proof (induction "k - length (fetched s)" arbitrary: s rule: less_induct)
  case less
  let ?q = "search self rating warnings None sortColumn sortDirection (pageNumber s)"
  show ?case
  proof (cases "ficsCounted s < n")
    case False
    then show ?thesis by (simp add: loop_unfold_stop)
  next
    case True
    show ?thesis
    proof (cases "attributeCounter_body srv self type rating warnings sortColumn sortDirection
        waitTime s")
      case (Inl x)
      with True show ?thesis by (simp add: loop_unfold_raise)
    next
      case (Inr s')
      show ?thesis
      proof (rule attributeCounter_body_cases [where srv = srv and self = self and type = type
        and rating = rating and warnings = warnings and sortColumn = sortColumn
        and sortDirection = sortDirection and waitTime = waitTime and s = s], goal_cases)
        case (4 p s2)
        from 4(1) err [of ?q] have "length (fetched s) \<noteq> k" by auto
        with less.prems have lt: "length (fetched s) < k" by simp
        from count_page_Inr [OF 4(2)] 4(4) Inr
        have len: "length (fetched s') = Suc (length (fetched s))" by auto
        with lt have "k - length (fetched s') < k - length (fetched s)"
          and "length (fetched s') \<le> k" by simp_all
        from less.hyps [OF this] True Inr show ?case
          by (simp add: loop_unfold_step)
      qed (use Inr in simp_all)
    qed
  qed
qed

lemma run_ends_at_error:
  assumes err: "\<And>q. \<exists>e. srv k q = Inl e"
  shows "\<exists>r. attributeCounter_run srv self type rating warnings sampleSize sortColumn
           sortDirection startPage waitTime tagCount' = Some r"
proof (cases sampleSize)
  case (Some n)
  with loop_ends_at_error [where srv = srv and k = k
      and s = "attributeCounter_start type startPage tagCount'", OF err]
  show ?thesis by (simp add: attributeCounter_run_def)
next
  case None
  let ?cq = "search self rating warnings None [] [] 1"
  show ?thesis
  proof (cases "srv 0 ?cq")
    case (Inl e)
    with None show ?thesis by (simp add: attributeCounter_run_def fetch_eq)
  next
    case (Inr p)
    with err [of ?cq] have "k \<noteq> 0" by (cases k) auto
    with loop_ends_at_error [where srv = srv and k = k
      and s = "(attributeCounter_start type startPage tagCount')\<lparr>fetched := [(?cq, Inr p)]\<rparr>",
      OF err]
    have "\<exists>r. attributeCounter_loop srv self type rating warnings sortColumn sortDirection
            waitTime (total_results p)
            ((attributeCounter_start type startPage tagCount')\<lparr>fetched := [(?cq, Inr p)]\<rparr>)
            = Some r" by simp
    with None Inr show ?thesis by (simp add: attributeCounter_run_def fetch_eq)
  qed
qed

lemma works_of_drop_error:
  "works_of (drop k (xs @ [(q, Inl e)])) = works_of (drop k xs)"
  by (cases "k \<le> length xs") (simp_all add: works_of_def)

lemma run_archive_error:
  assumes run: "attributeCounter_run srv self type rating warnings sampleSize sortColumn
      sortDirection startPage waitTime tagCount' = Some r"
    and err: "(q, Inl e) \<in> set (fetched (final_locals r))"
  shows "\<exists>f before s1. r = Inl (e, f) \<and> fetched f = before @ [(q, Inl e)]
           \<and> all_answered before
           \<and> count_page type (consumed sampleSize f)
                (attributeCounter_start type startPage tagCount') = Inr s1
           \<and> tagCount f = tagCount s1"
proof (rule attributeCounter_run_cases [OF run], goal_cases)
  case (1 n)
  let ?s0 = "attributeCounter_start type startPage tagCount'"
  have "all_answered (fetched ?s0)" by simp
  from loop_archive_error [OF 1(2) err this] obtain f ex s1
    where "r = Inl (e, f)" "fetched f = ex @ [(q, Inl e)]" "all_answered ex"
      "count_page type (works_of ex) ?s0 = Inr s1" "tagCount f = tagCount s1"
    by auto
  with 1(1) show ?case
    by (simp add: consumed_def)
next
  case (2 e')
  let ?s0 = "attributeCounter_start type startPage tagCount'"
  from 2(3) err have "q = search self rating warnings None [] [] 1" "e = e'"
    by (simp_all add: final_locals_def)
  with 2(1,3) show ?case
    by (simp add: consumed_def)
next
  case (3 p)
  let ?s0 = "attributeCounter_start type startPage tagCount'"
  let ?cq = "search self rating warnings None [] [] 1"
  let ?s1 = "?s0\<lparr>fetched := [(?cq, Inr p)]\<rparr>"
  have "all_answered (fetched ?s1)" by simp
  from loop_archive_error [OF 3(3) err this] obtain f ex s1
    where f: "r = Inl (e, f)" "fetched f = [(?cq, Inr p)] @ ex @ [(q, Inl e)]" "all_answered ex"
      and c: "count_page type (works_of ex) ?s1 = Inr s1" and t: "tagCount f = tagCount s1"
    by auto
  have "?s1 = with_cursor startPage [(?cq, Inr p)] ?s0"
    by (simp add: with_cursor_def attributeCounter_start_def)
  with c obtain s1' where c': "count_page type (works_of ex) ?s0 = Inr s1'"
    and "s1 = with_cursor startPage [(?cq, Inr p)] s1'"
    by (auto elim: with_cursor_Inr)
  with t have t': "tagCount f = tagCount s1'" by simp
  have "consumed sampleSize f = works_of ex"
    using 3(1) f(2) works_of_drop_error [of 1 "(?cq, Inr p) # ex" q e]
    by (simp add: consumed_def)
  with f c' t' have "r = Inl (e, f) \<and> fetched f = ([(?cq, Inr p)] @ ex) @ [(q, Inl e)]
           \<and> all_answered ([(?cq, Inr p)] @ ex)
           \<and> count_page type (consumed sampleSize f) ?s0 = Inr s1'
           \<and> tagCount f = tagCount s1'"
    by (simp add: all_answered_def)
  then show ?case by blast
qed

subsection \<open>The page requests of the two loops\<close>

lemma pages_of_size:
  assumes "\<forall>i q. \<exists>p. srv i q = Inr p \<and> length (results p) = m"
  shows "all_answered (page_exchanges srv self rating warnings sortColumn sortDirection s j)
       \<and> length (works_of (page_exchanges srv self rating warnings sortColumn sortDirection s j))
           = m * j"
proof (induction j)
  case 0
  show ?case by (simp add: page_exchanges_def)
next
  case (Suc j)
  let ?q = "search self rating warnings None sortColumn sortDirection (pageNumber s + int j)"
  from assms obtain p where "srv (length (fetched s) + j) ?q = Inr p" "length (results p) = m"
    by blast
  with Suc show ?case
    by (simp add: page_exchanges_Suc page_exchange_def)
qed

text \<open>
  The loop of \<open>fandom.py\<close> on an archive whose pages hold 20 works each: a call without a
  seed, for a target \<open>n\<close>, returns after exactly \<open>\<lceil>n / 20\<rceil>\<close> page requests, at the first
  page with which the works consumed reach the target.
\<close>

lemma fandom_py_page_requests:
  assumes pages: "\<forall>i q. \<exists>p. srv i q = Inr p \<and> length (results p) = 20"
    and wait: "0 \<le> waitTime"
  shows "\<exists>f. attributeCounter_run srv self type rating warnings (Some n) sortColumn sortDirection
                startPage waitTime None = Some (Inr f)
           \<and> length (fetched f) = nat ((n + 19) div 20)
           \<and> n \<le> int (length (consumed (Some n) f))
           \<and> (fetched f \<noteq> [] \<longrightarrow> int (length (works_of (butlast (fetched f)))) < n)"
proof -
  let ?s = "attributeCounter_start type startPage None"
  let ?k = "nat ((n + 19) div 20)"
  let ?ex = "page_exchanges srv self rating warnings sortColumn sortDirection ?s"
  note sz = pages_of_size [OF pages, of self rating warnings sortColumn sortDirection ?s]
  have lt: "\<forall>j<?k. ficsCounted ?s + int (length (works_of (?ex j))) < n"
    using sz by auto
  have ge: "n \<le> ficsCounted ?s + int (length (works_of (?ex ?k)))"
    using sz by auto
  from loop_pages [OF fits_start wait conjunct1 [OF sz] lt ge]
  obtain f where f: "attributeCounter_loop srv self type rating warnings sortColumn sortDirection
                waitTime n ?s = Some (Inr f)"
    and log: "fetched f = fetched ?s @ ?ex ?k"
    by blast
  from log have fl: "length (fetched f) = ?k" by simp
  from log ge have c: "n \<le> int (length (consumed (Some n) f))"
    by (simp add: consumed_def)
  have "int (length (works_of (butlast (fetched f)))) < n" if "fetched f \<noteq> []"
  proof -
    from that fl obtain k' where k': "?k = Suc k'" by (cases ?k) auto
    then have "butlast (?ex ?k) = ?ex k'" by (simp add: page_exchanges_Suc)
    moreover have "int (length (works_of (?ex k'))) < n"
      using lt k' by simp
    ultimately show ?thesis using log by simp
  qed
  with f fl c show ?thesis
    by (simp add: attributeCounter_run_def)
qed

lemma fandom_py_forty_twentyone_twenty:
  assumes pages: "\<forall>i q. \<exists>p. srv i q = Inr p \<and> length (results p) = 20"
    and wait: "0 \<le> waitTime"
  shows "(\<exists>f. attributeCounter_run srv self type rating warnings (Some 40) sortColumn
               sortDirection startPage waitTime None = Some (Inr f) \<and> length (fetched f) = 2)
       \<and> (\<exists>f. attributeCounter_run srv self type rating warnings (Some 21) sortColumn
               sortDirection startPage waitTime None = Some (Inr f) \<and> length (fetched f) = 2)
       \<and> (\<exists>f. attributeCounter_run srv self type rating warnings (Some 20) sortColumn
               sortDirection startPage waitTime None = Some (Inr f) \<and> length (fetched f) = 1)"
  using fandom_py_page_requests [OF assms, of self type rating warnings 40 sortColumn
      sortDirection startPage]
    fandom_py_page_requests [OF assms, of self type rating warnings 21 sortColumn
      sortDirection startPage]
    fandom_py_page_requests [OF assms, of self type rating warnings 20 sortColumn
      sortDirection startPage]
  by auto

text \<open>
  The loop of \<open>fandom.py\<close> for a target of zero: no page is requested and the call returns the
  dictionary as it was, with empty tables when there was no seed. Without a sample size the
  only request is the one for the total.
\<close>

lemma fandom_py_zero_target:
  "attributeCounter_run srv self type rating warnings (Some 0) sortColumn sortDirection
     startPage waitTime tagCount' = Some (Inr (attributeCounter_start type startPage tagCount'))"
  "srv 0 (search self rating warnings None [] [] 1) = Inr p \<Longrightarrow> total_results p = 0 \<Longrightarrow>
   attributeCounter_run srv self type rating warnings None sortColumn sortDirection
     startPage waitTime tagCount' =
     Some (Inr ((attributeCounter_start type startPage tagCount')
                  \<lparr>fetched := [(search self rating warnings None [] [] 1, Inr p)]\<rparr>))"
  by (simp_all add: attributeCounter_run_def loop_unfold_stop fetch_eq)

lemma count_page_A_fields [simp]:
  "ficsCounted_A (count_page_A type ws s) = ficsCounted_A s + int (length ws)"
  "fetched_A (count_page_A type ws s) = fetched_A s"
  "pageNumber_A (count_page_A type ws s) = pageNumber_A s"
  by (induction ws arbitrary: s) (simp_all add: count_work_A_eq)

lemma body_A_answered:
  assumes "srv (length (fetched_A s))
             (AO3_analyzer_Search self rating warnings sortColumn sortDirection (pageNumber_A s))
           = Inr p"
  shows "\<exists>s'. AO3_analyzer_attributeCounter_body srv self type rating warnings sortColumn
                 sortDirection s = Inr s'
           \<and> ficsCounted_A s' = ficsCounted_A s + int (length (results p))
           \<and> length (fetched_A s') = Suc (length (fetched_A s))"
  using assms
  by (simp add: AO3_analyzer_attributeCounter_body_def fetch_A_def update_def Let_def)

lemma loop_A_pages:
  assumes pages: "\<forall>i q. \<exists>p. srv i q = Inr p \<and> length (results p) = m"
  shows "\<forall>j<k. ficsCounted_A s + int (m * j) \<le> n \<Longrightarrow> n < ficsCounted_A s + int (m * k) \<Longrightarrow>
     \<exists>f. AO3_analyzer_attributeCounter_loop srv self type rating warnings sortColumn
            sortDirection n s = Some (Inr f)
        \<and> length (fetched_A f) = length (fetched_A s) + k
        \<and> ficsCounted_A f = ficsCounted_A s + int (m * k)"
proof (induction k arbitrary: s)
  case 0
  then show ?case by (simp add: loop_A_unfold_stop)
next
  case (Suc k)
  from Suc.prems(1) have le: "ficsCounted_A s \<le> n" by (auto dest: spec [of _ 0])
  from pages obtain p where "srv (length (fetched_A s))
      (AO3_analyzer_Search self rating warnings sortColumn sortDirection (pageNumber_A s)) = Inr p"
    and "length (results p) = m"
    by blast
  with body_A_answered [of srv s self rating warnings sortColumn sortDirection p type]
  obtain s1 where b: "AO3_analyzer_attributeCounter_body srv self type rating warnings sortColumn
                 sortDirection s = Inr s1"
    and c: "ficsCounted_A s1 = ficsCounted_A s + int m"
    and l: "length (fetched_A s1) = Suc (length (fetched_A s))"
    by auto
  have "\<forall>j<k. ficsCounted_A s1 + int (m * j) \<le> n"
  proof (intro allI impI)
    fix j assume "j < k"
    then have "Suc j < Suc k" by simp
    with Suc.prems(1) have "ficsCounted_A s + int (m * Suc j) \<le> n" by blast
    with c show "ficsCounted_A s1 + int (m * j) \<le> n" by simp
  qed
  moreover have "n < ficsCounted_A s1 + int (m * k)"
    using Suc.prems(2) c by simp
  ultimately obtain f where "AO3_analyzer_attributeCounter_loop srv self type rating warnings
        sortColumn sortDirection n s1 = Some (Inr f)"
    and "length (fetched_A f) = length (fetched_A s1) + k"
    and "ficsCounted_A f = ficsCounted_A s1 + int (m * k)"
    using Suc.IH [of s1] by blast
  with c l show ?case
    by (simp add: loop_A_unfold_step [OF le b])
qed

text \<open>
  The loop of \<open>AO3_analyzer.py\<close> on an archive whose pages hold 20 works each: for a target
  \<open>n\<close> that is not negative the call returns after \<open>n div 20 + 1\<close> requests, one more than
  needed when \<open>n\<close> is a multiple of 20.
\<close>

lemma AO3_analyzer_page_requests:
  assumes pages: "\<forall>i q. \<exists>p. srv i q = Inr p \<and> length (results p) = 20"
    and n: "0 \<le> n"
  shows "\<exists>f. AO3_analyzer_attributeCounter_run srv self type rating warnings (Some n)
                sortColumn sortDirection = Some (Inr f)
           \<and> length (fetched_A f) = nat (n div 20) + 1
           \<and> ficsCounted_A f = 20 * (n div 20) + 20"
proof -
  let ?s = AO3_analyzer_attributeCounter_start
  have s: "ficsCounted_A ?s = 0" "fetched_A ?s = []"
    by (simp_all add: AO3_analyzer_attributeCounter_start_def)
  have "\<forall>j<nat (n div 20) + 1. ficsCounted_A ?s + int (20 * j) \<le> n"
    using n s by auto
  moreover have "n < ficsCounted_A ?s + int (20 * (nat (n div 20) + 1))"
    using n s by auto
  ultimately obtain f where "AO3_analyzer_attributeCounter_loop srv self type rating warnings
        sortColumn sortDirection n ?s = Some (Inr f)"
    and "length (fetched_A f) = length (fetched_A ?s) + (nat (n div 20) + 1)"
    and "ficsCounted_A f = ficsCounted_A ?s + int (20 * (nat (n div 20) + 1))"
    using loop_A_pages [OF pages, of "nat (n div 20) + 1" ?s n self type rating warnings
        sortColumn sortDirection]
    by blast
  with n s show ?thesis
    by (simp add: AO3_analyzer_attributeCounter_run_def)
qed

lemma loop_A_returns_above_target:
  assumes run: "AO3_analyzer_attributeCounter_loop srv self type rating warnings sortColumn
      sortDirection n s = Some r"
  shows "(\<forall>i q. \<exists>p. srv i q = Inr p \<and> results p = []) \<longrightarrow> n < ficsCounted_A s"
proof (rule AO3_analyzer_attributeCounter_loop.raw_induct
    [where P = "\<lambda>srv self type rating warnings sortColumn sortDirection n s r.
       (\<forall>i q. \<exists>p. srv i q = Inr p \<and> results p = []) \<longrightarrow> n < ficsCounted_A s",
     OF _ run], goal_cases)
  case (1 loop srv self type rating warnings sortColumn sortDirection n s r)
  show ?case
  proof
    assume empty: "\<forall>i q. \<exists>p. srv i q = Inr p \<and> results p = []"
    show "n < ficsCounted_A s"
    proof (rule ccontr)
      assume "\<not> n < ficsCounted_A s"
      then have le: "ficsCounted_A s \<le> n" by simp
      from empty obtain p where "srv (length (fetched_A s))
          (AO3_analyzer_Search self rating warnings sortColumn sortDirection (pageNumber_A s)) = Inr p"
        and "results p = []"
        by blast
      with body_A_answered [of srv s self rating warnings sortColumn sortDirection p type]
      obtain s1 where b: "AO3_analyzer_attributeCounter_body srv self type rating warnings
          sortColumn sortDirection s = Inr s1"
        and c: "ficsCounted_A s1 = ficsCounted_A s"
        by auto
      from 1(2) le b have "loop srv self type rating warnings sortColumn sortDirection n s1 = Some r"
        by simp
      from 1(1) [OF this] empty have "n < ficsCounted_A s1" by blast
      with c le show False by simp
    qed
  qed
qed

text \<open>
  The loop of \<open>AO3_analyzer.py\<close> on an archive whose pages are all empty never returns,
  whatever the target is, zero too.
\<close>

lemma AO3_analyzer_never_returns:
  assumes "\<forall>i q. \<exists>p. srv i q = Inr p \<and> results p = []" and "0 \<le> n"
  shows "AO3_analyzer_attributeCounter_run srv self type rating warnings (Some n) sortColumn
           sortDirection = None"
proof (cases "AO3_analyzer_attributeCounter_run srv self type rating warnings (Some n)
    sortColumn sortDirection")
  case None
  then show ?thesis .
next
  case (Some r)
  then have "AO3_analyzer_attributeCounter_loop srv self type rating warnings sortColumn
      sortDirection n AO3_analyzer_attributeCounter_start = Some r"
    by (simp add: AO3_analyzer_attributeCounter_run_def)
  from loop_A_returns_above_target [OF this] assms show ?thesis
    by (simp add: AO3_analyzer_attributeCounter_start_def)
qed

subsection \<open>One page counted into a seed\<close>


subsection \<open>The queries and the quotients of the rating composition\<close>

lemma search_rating_query:
  "search self (Some r) None sampleSize [] [] 1 = rating_query self r"
  by (simp add: search_def rating_query_def)

lemma no_float_overflow:
  "b \<noteq> 0 \<Longrightarrow> \<bar>a\<bar> < 2 ^ 1023 \<Longrightarrow> \<not> float_overflow a b"
proof -
  assume b: "b \<noteq> 0" and a: "\<bar>a\<bar> < 2 ^ 1023"
  have "(2::int) ^ 1023 \<le> 2 ^ 1024 - 2 ^ 970" by simp
  moreover have "(2 ^ 1024 - 2 ^ 970) * 1 \<le> ((2::int) ^ 1024 - 2 ^ 970) * \<bar>b\<bar>"
    using b by (intro mult_left_mono) simp_all
  ultimately show ?thesis using a by (simp add: float_overflow_def)
qed

text \<open>A quotient that is too large for a float ends the composition with \<open>OverflowError\<close>.\<close>

lemma overflow_ends_composition:
  assumes "totalWorks self \<noteq> 0" and "srv 0 (rating_query self 9) = Inr p9"
    and "float_overflow (100 * total_results p9) (totalWorks self)"
  shows "getRatingComposition ops srv self = (Inl OverflowError, [(rating_query self 9, Inr p9)])"
  using assms
  by (simp add: getRatingComposition_def update_def py_truediv_def Let_def search_rating_query)

section \<open>The constraint builder\<close>

lemma constraint_of_policy: "constraint_policy lo hi (constraint_of lo hi)"
  by (simp add: constraint_policy_def constraint_of_def split: option.splits)

text \<open>
  Claim C4. For each of the four numeric filters (word count, hits, bookmarks, comments) the
  constraint that the constructor stores follows the policy: both bounds unset give no
  constraint, a maximum without a minimum gives the interval from 0 to the maximum, a minimum
  without a maximum gives the interval from the minimum without upper bound. This holds for
  the constructor of either module, whenever it returns an object.
\<close>

theorem constructor_constraints:
  assumes "fst (Fandom_init srv fandomName' session' singleChapter' wordCountMin wordCountMax
             language' minHits maxHits minBookmarks maxBookmarks minComments maxComments
             crossover' completionStatus' revisedAt' characters' relationships' tags') = Inr self
           \<or> fst (AO3_analyzer_Fandom_init srv fandomName' session' singleChapter' wordCountMin
             wordCountMax language' minHits maxHits minBookmarks maxBookmarks minComments
             maxComments crossover' completionStatus' revisedAt') = Inr self"
  shows "constraint_policy wordCountMin wordCountMax (wordCountConstraint self)
       \<and> constraint_policy minHits maxHits (hitConstraint self)
       \<and> constraint_policy minBookmarks maxBookmarks (bookmarkConstraint self)
       \<and> constraint_policy minComments maxComments (commentConstraint self)"
  using assms
  by (auto simp: Fandom_init_def AO3_analyzer_Fandom_init_def Let_def constraint_of_policy
      split: prod.splits sum.splits)

theorem constructor_constraints_witness:
  "\<exists>self. fst (Fandom_init empty_archive ''X'' None False None (Some 10) [] (Some 5) None
               None None (Some 1) (Some 2) None None [] [] [] []) = Inr self
     \<and> wordCountConstraint self = Some (Constraint 0 (Some 10))
     \<and> hitConstraint self = Some (Constraint 5 None)
     \<and> bookmarkConstraint self = None
     \<and> commentConstraint self = Some (Constraint 1 (Some 2))"
proof -
  obtain self where s:
    "fst (Fandom_init empty_archive ''X'' None False None (Some 10) [] (Some 5) None
            None None (Some 1) (Some 2) None None [] [] [] []) = Inr self"
    by (simp add: Fandom_init_def update_def empty_archive_def Let_def)
  from constructor_constraints [OF disjI1, OF s] show ?thesis
    using s by (auto simp: constraint_policy_def)
qed

section \<open>The compositions\<close>

text \<open>
  Claim C1, as the code has it. For a fandom whose stored total is zero, each of the four
  composition functions makes its first request and then ends with the uncaught
  \<open>ZeroDivisionError\<close> of the percentage (or with the exception of the archive, when that
  first request fails). No report is returned, and no other error value is produced: the
  code has no check of the total.
\<close>

theorem zero_total_raises:
  assumes "totalWorks self = 0"
  shows "fst (getRatingComposition ops srv self) =
           Inl (case srv 0 (search self (Some 9) None None [] [] 1) of
                  Inl e \<Rightarrow> e | Inr searchResults \<Rightarrow> ZeroDivisionError)
       \<and> fst (getWarningComposition ops srv self ratingRestriction) =
           Inl (case srv 0 (search self ratingRestriction (Some [14]) None [] [] 1) of
                  Inl e \<Rightarrow> e | Inr searchResults \<Rightarrow> ZeroDivisionError)
       \<and> fst (AO3_analyzer_getRatingComposition ops srv self) =
           Inl (case srv 0 (AO3_analyzer_Search self (Some 9) None [] [] 1) of
                  Inl e \<Rightarrow> e | Inr searchResults \<Rightarrow> ZeroDivisionError)
       \<and> fst (AO3_analyzer_getWarningComposition ops srv self ratingRestriction) =
           Inl (case srv 0 (AO3_analyzer_Search self ratingRestriction (Some [14]) [] [] 1) of
                  Inl e \<Rightarrow> e | Inr searchResults \<Rightarrow> ZeroDivisionError)"
  using assms
  by (simp add: getRatingComposition_def getWarningComposition_def
      AO3_analyzer_getRatingComposition_def AO3_analyzer_getWarningComposition_def
      warningValues_def enumerate_eq_zip upt_rec
      update_def py_truediv_def Let_def split: sum.splits)

theorem zero_total_raises_witness:
  "fst (getRatingComposition symbolic_ops empty_archive (example_fandom 0)) =
     Inl ZeroDivisionError
   \<and> fst (getWarningComposition symbolic_ops empty_archive (example_fandom 0) None) =
     Inl ZeroDivisionError
   \<and> fst (AO3_analyzer_getRatingComposition symbolic_ops empty_archive (example_fandom 0)) =
     Inl ZeroDivisionError
   \<and> fst (AO3_analyzer_getWarningComposition symbolic_ops empty_archive (example_fandom 0) None) =
     Inl ZeroDivisionError"
  using zero_total_raises [of "example_fandom 0" symbolic_ops empty_archive None]
  by (simp add: example_fandom_def empty_archive_def)

text \<open>
  Claim C1 as it is written fails: on a fandom with total zero and an archive that answers,
  both compositions of \<open>fandom.py\<close> end with \<open>ZeroDivisionError\<close>, raised by the
  division after one request.
\<close>

theorem zero_total_counterexample:
  "totalWorks (example_fandom 0) = 0
   \<and> getRatingComposition symbolic_ops empty_archive (example_fandom 0) =
       (Inl ZeroDivisionError,
        [(search (example_fandom 0) (Some 9) None None [] [] 1,
          Inr \<lparr>total_results = 0, results = []\<rparr>)])
   \<and> fst (getWarningComposition symbolic_ops empty_archive (example_fandom 0) None) =
       Inl ZeroDivisionError"
  by (simp add: getRatingComposition_def getWarningComposition_def
      warningValues_def enumerate_eq_zip upt_rec example_fandom_def empty_archive_def
      update_def py_truediv_def Let_def)

text \<open>
  Claim C7. When the total of the fandom is not zero, the archive answers the five requests
  and no quotient is too large for a float, \<open>getRatingComposition\<close> makes exactly five
  requests, one for each rating from 9 to 13 in this order, each with the stored filters of
  the fandom and that rating (no warnings, no sort order, the first page), and returns the
  dictionary with the five keys, where the entry of a rating is the pair of the total of its
  answer and \<open>round(100 * total / totalWorks, 2)\<close>.
\<close>

theorem rating_composition:
  assumes "totalWorks self \<noteq> 0"
    and "srv 0 (rating_query self 9) = Inr p9"
    and "srv 1 (rating_query self 10) = Inr p10"
    and "srv 2 (rating_query self 11) = Inr p11"
    and "srv 3 (rating_query self 12) = Inr p12"
    and "srv 4 (rating_query self 13) = Inr p13"
    and "\<not> float_overflow (100 * total_results p9) (totalWorks self)"
    and "\<not> float_overflow (100 * total_results p10) (totalWorks self)"
    and "\<not> float_overflow (100 * total_results p11) (totalWorks self)"
    and "\<not> float_overflow (100 * total_results p12) (totalWorks self)"
    and "\<not> float_overflow (100 * total_results p13) (totalWorks self)"
  shows "getRatingComposition ops srv self =
    (Inr [9 \<mapsto> Some (total_results p9,
                 round_ndigits ops (truediv ops (100 * total_results p9) (totalWorks self)) 2),
          10 \<mapsto> Some (total_results p10,
                 round_ndigits ops (truediv ops (100 * total_results p10) (totalWorks self)) 2),
          11 \<mapsto> Some (total_results p11,
                 round_ndigits ops (truediv ops (100 * total_results p11) (totalWorks self)) 2),
          12 \<mapsto> Some (total_results p12,
                 round_ndigits ops (truediv ops (100 * total_results p12) (totalWorks self)) 2),
          13 \<mapsto> Some (total_results p13,
                 round_ndigits ops (truediv ops (100 * total_results p13) (totalWorks self)) 2)],
     [(rating_query self 9, Inr p9),
      (rating_query self 10, Inr p10),
      (rating_query self 11, Inr p11),
      (rating_query self 12, Inr p12),
      (rating_query self 13, Inr p13)])
   \<and> map (\<lambda>(q, r). kw_rating q) (snd (getRatingComposition ops srv self)) =
       [Some 9, Some 10, Some 11, Some 12, Some 13]"
proof -
  have idx: "srv (Suc 0) (rating_query self 10) = Inr p10"
    "srv (Suc (Suc 0)) (rating_query self 11) = Inr p11"
    "srv (Suc (Suc (Suc 0))) (rating_query self 12) = Inr p12"
    "srv (Suc (Suc (Suc (Suc 0)))) (rating_query self 13) = Inr p13"
    using assms(3-6) by (simp_all add: eval_nat_numeral)
  have run: "getRatingComposition ops srv self =
    (Inr [9 \<mapsto> Some (total_results p9,
                 round_ndigits ops (truediv ops (100 * total_results p9) (totalWorks self)) 2),
          10 \<mapsto> Some (total_results p10,
                 round_ndigits ops (truediv ops (100 * total_results p10) (totalWorks self)) 2),
          11 \<mapsto> Some (total_results p11,
                 round_ndigits ops (truediv ops (100 * total_results p11) (totalWorks self)) 2),
          12 \<mapsto> Some (total_results p12,
                 round_ndigits ops (truediv ops (100 * total_results p12) (totalWorks self)) 2),
          13 \<mapsto> Some (total_results p13,
                 round_ndigits ops (truediv ops (100 * total_results p13) (totalWorks self)) 2)],
     [(rating_query self 9, Inr p9),
      (rating_query self 10, Inr p10),
      (rating_query self 11, Inr p11),
      (rating_query self 12, Inr p12),
      (rating_query self 13, Inr p13)])"
    using assms(1,2,7-11) idx
    by (simp add: getRatingComposition_def update_def py_truediv_def Let_def search_rating_query)
  show ?thesis
    unfolding run by (simp add: rating_query_def)
qed

theorem rating_composition_witness:
  "getRatingComposition symbolic_ops counting_archive filtered_fandom =
    (Inr [9 \<mapsto> Some (0, Round (TrueDiv 0 100) 2),
          10 \<mapsto> Some (10, Round (TrueDiv 1000 100) 2),
          11 \<mapsto> Some (20, Round (TrueDiv 2000 100) 2),
          12 \<mapsto> Some (30, Round (TrueDiv 3000 100) 2),
          13 \<mapsto> Some (40, Round (TrueDiv 4000 100) 2)],
     [(rating_query filtered_fandom 9, Inr \<lparr>total_results = 0, results = []\<rparr>),
      (rating_query filtered_fandom 10, Inr \<lparr>total_results = 10, results = []\<rparr>),
      (rating_query filtered_fandom 11, Inr \<lparr>total_results = 20, results = []\<rparr>),
      (rating_query filtered_fandom 12, Inr \<lparr>total_results = 30, results = []\<rparr>),
      (rating_query filtered_fandom 13, Inr \<lparr>total_results = 40, results = []\<rparr>)])
   \<and> map (\<lambda>(q, r). (kw_rating q, kw_fandoms q, kw_language q, kw_word_count q, kw_tags q))
       (snd (getRatingComposition symbolic_ops counting_archive filtered_fandom)) =
       [(Some 9, ''X'', ''en'', Some (Constraint 0 (Some 10)), ''fluff''),
        (Some 10, ''X'', ''en'', Some (Constraint 0 (Some 10)), ''fluff''),
        (Some 11, ''X'', ''en'', Some (Constraint 0 (Some 10)), ''fluff''),
        (Some 12, ''X'', ''en'', Some (Constraint 0 (Some 10)), ''fluff''),
        (Some 13, ''X'', ''en'', Some (Constraint 0 (Some 10)), ''fluff'')]"
proof -
  have t: "totalWorks filtered_fandom = 100" by (simp add: filtered_fandom_def)
  have no: "\<not> float_overflow (100 * n) (totalWorks filtered_fandom)" if "\<bar>n\<bar> \<le> 40" for n
    unfolding t by (rule no_float_overflow) (use that in simp_all)
  note th = rating_composition [of filtered_fandom counting_archive
      "\<lparr>total_results = 0, results = []\<rparr>" "\<lparr>total_results = 10, results = []\<rparr>"
      "\<lparr>total_results = 20, results = []\<rparr>" "\<lparr>total_results = 30, results = []\<rparr>"
      "\<lparr>total_results = 40, results = []\<rparr>" symbolic_ops, THEN conjunct1]
  have run: "getRatingComposition symbolic_ops counting_archive filtered_fandom =
    (Inr [9 \<mapsto> Some (0, Round (TrueDiv 0 100) 2),
          10 \<mapsto> Some (10, Round (TrueDiv 1000 100) 2),
          11 \<mapsto> Some (20, Round (TrueDiv 2000 100) 2),
          12 \<mapsto> Some (30, Round (TrueDiv 3000 100) 2),
          13 \<mapsto> Some (40, Round (TrueDiv 4000 100) 2)],
     [(rating_query filtered_fandom 9, Inr \<lparr>total_results = 0, results = []\<rparr>),
      (rating_query filtered_fandom 10, Inr \<lparr>total_results = 10, results = []\<rparr>),
      (rating_query filtered_fandom 11, Inr \<lparr>total_results = 20, results = []\<rparr>),
      (rating_query filtered_fandom 12, Inr \<lparr>total_results = 30, results = []\<rparr>),
      (rating_query filtered_fandom 13, Inr \<lparr>total_results = 40, results = []\<rparr>)])"
    using th no [of 0] no [of 10] no [of 20] no [of 30] no [of 40]
    by (simp add: counting_archive_def symbolic_ops_def t)
  show ?thesis
    unfolding run by (simp add: rating_query_def filtered_fandom_def)
qed

section \<open>attributeCounter of AO3_analyzer.py without a sample size\<close>

text \<open>
  Claim C10. In the older module a call of \<open>attributeCounter\<close> without a sample size always
  ends with an exception: that of the archive when the request for the total fails, and
  otherwise \<open>UnboundLocalError\<close>, when the condition of the loop reads \<open>totalWorkCount\<close>.
  At that point one request has been made, no page has been requested, no work has been
  counted and the table is empty. The call never returns a table.
\<close>

theorem no_sample_size_fails:
  "AO3_analyzer_attributeCounter_run srv self type rating warnings None sortColumn sortDirection =
     Some (Inl (case srv 0 (AO3_analyzer_Search self rating warnings [] [] 1) of
                  Inl e \<Rightarrow> e | Inr totalWorkCountTemp \<Rightarrow> UnboundLocalError,
                \<lparr>tagCount_A = Map.empty, ficsCounted_A = 0, pageNumber_A = 1,
                 fetched_A = [(AO3_analyzer_Search self rating warnings [] [] 1,
                               srv 0 (AO3_analyzer_Search self rating warnings [] [] 1))]\<rparr>))
   \<and> AO3_analyzer_attributeCounter srv self type rating warnings None sortColumn sortDirection =
     Some (Inl (case srv 0 (AO3_analyzer_Search self rating warnings [] [] 1) of
                  Inl e \<Rightarrow> e | Inr totalWorkCountTemp \<Rightarrow> UnboundLocalError))"
  by (simp add: AO3_analyzer_attributeCounter_def AO3_analyzer_attributeCounter_run_def
      AO3_analyzer_attributeCounter_start_def fetch_A_def update_def Let_def split: sum.splits)

section \<open>A call with a seed\<close>



section \<open>The lists that a type selects\<close>

text \<open>
  Claim C5, as the code has it. In \<open>fandom.py\<close>, for every work that is counted while
  \<open>tagCount\<close> fits the type (it has no table under a key that the type does not select; the
  new dictionary of a call is such), the type \<open>tags\<close> selects the tag list, \<open>relationships\<close>
  the relationship list, \<open>characters\<close> the character list and every other type the three
  lists; each selected list whose table is present is counted into that table and the other
  tables stay as they are. In \<open>AO3_analyzer.py\<close> the type \<open>relationships\<close> selects the
  relationship list, \<open>characters\<close> the character list and every other type, \<open>all\<close> too,
  the tag list alone, counted into the one table. Counting a list raises the count of each of
  its values by the number of its occurrences, from 0 for a value that is not yet a key.
\<close>

theorem selected_lists_are_counted:
  assumes "fits type (tagCount s)"
  shows "(\<exists>s'. count_work type w s = Inr s'
            \<and> ficsCounted s' = ficsCounted s + 1
            \<and> (\<forall>K. tagCount s' K =
                 (case tagCount s K of
                    None \<Rightarrow> None
                  | Some t \<Rightarrow>
                      (case map_of (selection type) K of
                         None \<Rightarrow> Some t
                       | Some sel \<Rightarrow> Some (counter_loop t (sel w))))))
       \<and> count_work_A type w sA =
           sA\<lparr>tagCount_A := counter_loop (tagCount_A sA)
                 (if type = ''relationships'' then work_relationships w
                  else if type = ''characters'' then work_characters w
                  else work_tags w),
              ficsCounted_A := ficsCounted_A sA + 1\<rparr>
       \<and> (\<forall>t xs a. counter_loop t xs a =
             (if a \<in> set xs then Some (count_of t a + int (count_list xs a)) else t a))
       \<and> fits type (tagCount (attributeCounter_start type startPage None))"
proof -
  from count_work_tally [OF assms, of w] obtain s'
    where w: "count_work type w s = Inr s'" and t: "tagCount s' = tally type (tagCount s) [w]"
    by blast
  have "\<forall>K. tagCount s' K =
                 (case tagCount s K of
                    None \<Rightarrow> None
                  | Some t \<Rightarrow>
                      (case map_of (selection type) K of
                         None \<Rightarrow> Some t
                       | Some sel \<Rightarrow> Some (counter_loop t (sel w))))"
    unfolding t by (simp add: tally_def split: option.splits)
  with w count_work_Inr(1) [OF w] show ?thesis
    by (simp add: count_work_A_eq counter_loop_apply count_of_def fits_start)
qed

theorem selected_lists_are_counted_witness:
  "(\<exists>s'. count_work ''all'' example_work (attributeCounter_start ''all'' 1 None) = Inr s'
      \<and> tagCount s' =
          [''tags'' \<mapsto> [''fluff'' \<mapsto> 1, ''angst'' \<mapsto> 1],
           ''relationships'' \<mapsto> [''a/b'' \<mapsto> 1],
           ''characters'' \<mapsto> [''a'' \<mapsto> 1, ''b'' \<mapsto> 1]])
   \<and> (\<exists>s'. count_work ''tags'' example_work (attributeCounter_start ''tags'' 1 None) = Inr s'
      \<and> tagCount s' = [''tags'' \<mapsto> [''fluff'' \<mapsto> 1, ''angst'' \<mapsto> 1]])"
proof -
  have f1: "fits ''all'' (tagCount (attributeCounter_start ''all'' 1 None))"
    by (simp add: fits_def attributeCounter_start_def selection_def)
  have f2: "fits ''tags'' (tagCount (attributeCounter_start ''tags'' 1 None))"
    by (simp add: fits_def attributeCounter_start_def selection_def)
  from selected_lists_are_counted [OF f1, of example_work]
  obtain s1 where a: "count_work ''all'' example_work (attributeCounter_start ''all'' 1 None) = Inr s1"
    and b: "\<forall>K. tagCount s1 K =
                 (case tagCount (attributeCounter_start ''all'' 1 None) K of
                    None \<Rightarrow> None
                  | Some t \<Rightarrow>
                      (case map_of (selection ''all'') K of
                         None \<Rightarrow> Some t
                       | Some sel \<Rightarrow> Some (counter_loop t (sel example_work))))"
    by blast
  from selected_lists_are_counted [OF f2, of example_work]
  obtain s2 where c: "count_work ''tags'' example_work (attributeCounter_start ''tags'' 1 None) = Inr s2"
    and d: "\<forall>K. tagCount s2 K =
                 (case tagCount (attributeCounter_start ''tags'' 1 None) K of
                    None \<Rightarrow> None
                  | Some t \<Rightarrow>
                      (case map_of (selection ''tags'') K of
                         None \<Rightarrow> Some t
                       | Some sel \<Rightarrow> Some (counter_loop t (sel example_work))))"
    by blast
  have "tagCount s1 = [''tags'' \<mapsto> [''fluff'' \<mapsto> 1, ''angst'' \<mapsto> 1],
           ''relationships'' \<mapsto> [''a/b'' \<mapsto> 1],
           ''characters'' \<mapsto> [''a'' \<mapsto> 1, ''b'' \<mapsto> 1]]"
    by (rule ext)
      (simp add: b attributeCounter_start_def selection_def example_work_def setdefault_def)
  moreover have "tagCount s2 = [''tags'' \<mapsto> [''fluff'' \<mapsto> 1, ''angst'' \<mapsto> 1]]"
    by (rule ext)
      (simp add: d attributeCounter_start_def selection_def example_work_def setdefault_def)
  ultimately show ?thesis using a c by simp
qed

text \<open>
  Claim C5 as it is written fails in \<open>AO3_analyzer.py\<close>: with the type \<open>all\<close> the
  relationships and the characters of a work are not counted, only its tags.
\<close>

theorem all_selects_tags_only_counterexample:
  "work_relationships example_work = [''a/b'']
   \<and> tagCount_A (count_work_A ''all'' example_work AO3_analyzer_attributeCounter_start) =
       [''fluff'' \<mapsto> 1, ''angst'' \<mapsto> 1]
   \<and> AO3_analyzer_attributeCounter one_work_archive (example_fandom 1) ''all'' None None (Some 0)
       [] [] = Some (Inr [''fluff'' \<mapsto> 1, ''angst'' \<mapsto> 1])"
proof -
  let ?s0 = AO3_analyzer_attributeCounter_start
  let ?s1 = "\<lparr>tagCount_A = [''fluff'' \<mapsto> 1, ''angst'' \<mapsto> 1], ficsCounted_A = 1,
      pageNumber_A = 2,
      fetched_A = [(AO3_analyzer_Search (example_fandom 1) None None [] [] 1,
                    Inr \<lparr>total_results = 1, results = [example_work]\<rparr>)]\<rparr>"
  have b: "AO3_analyzer_attributeCounter_body one_work_archive (example_fandom 1) ''all'' None None
      [] [] ?s0 = Inr ?s1"
    by (simp add: AO3_analyzer_attributeCounter_body_def fetch_A_def update_def Let_def
        one_work_archive_def AO3_analyzer_attributeCounter_start_def count_work_A_eq
        example_work_def setdefault_def)
  have "AO3_analyzer_attributeCounter_loop one_work_archive (example_fandom 1) ''all'' None None
      [] [] 0 ?s0 = Some (Inr ?s1)"
    by (subst loop_A_unfold_step [OF _ b])
      (simp_all add: AO3_analyzer_attributeCounter_start_def loop_A_unfold_stop)
  then show ?thesis
    by (simp add: AO3_analyzer_attributeCounter_def AO3_analyzer_attributeCounter_run_def
        count_work_A_eq example_work_def AO3_analyzer_attributeCounter_start_def setdefault_def)
qed

section \<open>Tables only grow\<close>

text \<open>
  Claim C8. Counting a list into a table loses no key and lowers no count: every count is
  raised by the number of occurrences of its key in the list, and the keys of the table are
  the old keys and the values of the list. For a whole call of \<open>attributeCounter\<close> that
  ends, however it ends, the dictionary at the end has every table and every key that it had
  at the start, with a count that is not smaller. When the call returns and the dictionary
  fitted the type, the count of every attribute in the table of a selected list is its count
  at the start plus the number of its occurrences in that list over all the works that the
  call consumed; for a call without a seed it is exactly that number, and the keys of the
  table are exactly the values that occur. The result is a function of the answers of the
  archive, so two runs over the same result stream give the same counts.
\<close>

theorem counts_only_grow:
  "(\<exists>m. counter countDict (Some items) = Inr m
        \<and> grows_table countDict m
        \<and> dom m = dom countDict \<union> set items
        \<and> (\<forall>a. count_of m a = count_of countDict a + int (count_list items a)))
   \<and> (attributeCounter_run srv self type rating warnings sampleSize sortColumn sortDirection
         startPage waitTime tagCount' = Some r \<longrightarrow>
        grows (tagCount (attributeCounter_start type startPage tagCount'))
          (tagCount (final_locals r))
        \<and> (\<forall>f K sel t.
              r = Inr f
              \<and> fits type (tagCount (attributeCounter_start type startPage tagCount'))
              \<and> map_of (selection type) K = Some sel
              \<and> tagCount (attributeCounter_start type startPage tagCount') K = Some t \<longrightarrow>
              (\<exists>t'. tagCount f K = Some t'
                  \<and> dom t' = dom t \<union> set (concat (map sel (consumed sampleSize f)))
                  \<and> (\<forall>a. count_of t' a =
                        count_of t a
                          + int (count_list (concat (map sel (consumed sampleSize f))) a))))
        \<and> (\<forall>f K sel.
              r = Inr f \<and> tagCount' = None \<and> map_of (selection type) K = Some sel \<longrightarrow>
              (\<exists>t'. tagCount f K = Some t'
                  \<and> dom t' = set (concat (map sel (consumed sampleSize f)))
                  \<and> (\<forall>a. count_of t' a =
                        int (count_list (concat (map sel (consumed sampleSize f))) a)))))"
proof (intro conjI impI)
  show "\<exists>m. counter countDict (Some items) = Inr m
        \<and> grows_table countDict m
        \<and> dom m = dom countDict \<union> set items
        \<and> (\<forall>a. count_of m a = count_of countDict a + int (count_list items a))"
    by (simp add: counter_def grows_table_counter_loop counter_loop_dom counter_loop_count_of)
next
  assume run: "attributeCounter_run srv self type rating warnings sampleSize sortColumn
      sortDirection startPage waitTime tagCount' = Some r"
  let ?T = "tagCount (attributeCounter_start type startPage tagCount')"
  show "grows ?T (tagCount (final_locals r))"
    by (rule run_grows [OF run])
  have seeded: "\<exists>t'. tagCount f K = Some t'
                  \<and> dom t' = dom t \<union> set (concat (map sel (consumed sampleSize f)))
                  \<and> (\<forall>a. count_of t' a =
                        count_of t a
                          + int (count_list (concat (map sel (consumed sampleSize f))) a))"
    if "r = Inr f" "fits type ?T" "map_of (selection type) K = Some sel" "?T K = Some t"
    for f K sel t
  proof -
    from run that(1) have "attributeCounter_run srv self type rating warnings sampleSize
        sortColumn sortDirection startPage waitTime tagCount' = Some (Inr f)" by simp
    from run_returned_tally [OF this that(2)] that(3,4)
    have "tagCount f K = Some (counter_loop t (concat (map sel (consumed sampleSize f))))"
      by (simp add: tally_def)
    then show ?thesis
      by (simp add: counter_loop_dom counter_loop_count_of)
  qed
  then show "\<forall>f K sel t.
              r = Inr f \<and> fits type ?T \<and> map_of (selection type) K = Some sel \<and> ?T K = Some t \<longrightarrow>
              (\<exists>t'. tagCount f K = Some t'
                  \<and> dom t' = dom t \<union> set (concat (map sel (consumed sampleSize f)))
                  \<and> (\<forall>a. count_of t' a =
                        count_of t a
                          + int (count_list (concat (map sel (consumed sampleSize f))) a)))"
    by blast
  show "\<forall>f K sel.
              r = Inr f \<and> tagCount' = None \<and> map_of (selection type) K = Some sel \<longrightarrow>
              (\<exists>t'. tagCount f K = Some t'
                  \<and> dom t' = set (concat (map sel (consumed sampleSize f)))
                  \<and> (\<forall>a. count_of t' a =
                        int (count_list (concat (map sel (consumed sampleSize f))) a)))"
  proof (intro allI impI, elim conjE)
    fix f K sel
    assume r: "r = Inr f" and none: "tagCount' = None"
      and sel: "map_of (selection type) K = Some sel"
    from none have fit: "fits type ?T" by (simp add: fits_start)
    from none sel have "?T K = Some Map.empty"
      by (auto simp: attributeCounter_start_def selection_def split: if_splits)
    from seeded [OF r fit sel this]
    show "\<exists>t'. tagCount f K = Some t'
                  \<and> dom t' = set (concat (map sel (consumed sampleSize f)))
                  \<and> (\<forall>a. count_of t' a =
                        int (count_list (concat (map sel (consumed sampleSize f))) a))"
      by (simp add: count_of_def)
  qed
qed

theorem counts_only_grow_witness:
  "\<exists>f t'. attributeCounter_run one_work_archive (example_fandom 1) ''tags'' None None (Some 2)
          [] [] 1 0 None = Some (Inr f)
     \<and> tagCount f ''tags'' = Some t'
     \<and> dom t' = {''fluff'', ''angst''}
     \<and> count_of t' ''fluff'' = 2 \<and> count_of t' ''angst'' = 2 \<and> count_of t' ''a/b'' = 0"
proof -
  from example_run obtain f
    where run: "attributeCounter_run one_work_archive (example_fandom 1) ''tags'' None None
        (Some 2) [] [] 1 0 None = Some (Inr f)"
      and log: "fetched f =
         [(search (example_fandom 1) None None None [] [] 1,
           Inr \<lparr>total_results = 1, results = [example_work]\<rparr>),
          (search (example_fandom 1) None None None [] [] 2,
           Inr \<lparr>total_results = 1, results = [example_work]\<rparr>)]"
    by (elim exE conjE)
  have sel: "map_of (selection ''tags'') ''tags'' = Some work_tags"
    by (simp add: selection_def)
  have c: "concat (map work_tags (consumed (Some 2) f)) = [''fluff'', ''angst'', ''fluff'', ''angst'']"
    by (simp add: consumed_def log works_of_def example_work_def)
  note th = counts_only_grow [of "Map.empty" "[]" one_work_archive "example_fandom 1" "''tags''"
      None None "Some 2" "[]" "[]" 1 0 None "Inr f", THEN conjunct2, THEN mp, OF run,
      THEN conjunct2, THEN conjunct2, rule_format, of f "''tags''" work_tags]
  from th sel
  obtain t' where "tagCount f ''tags'' = Some t'"
    and "dom t' = set (concat (map work_tags (consumed (Some 2) f)))"
    and "\<forall>a. count_of t' a = int (count_list (concat (map work_tags (consumed (Some 2) f))) a)"
    by auto
  with run show ?thesis
    unfolding c by auto
qed

section \<open>An exception of the archive\<close>

text \<open>
  Claim C9. When a request of a call of \<open>attributeCounter\<close> is answered with an exception,
  the call ends with this same exception: it is what the caller receives. The failed request
  is the last one of the call (nothing is tried again), every request before it was answered,
  and the dictionary of tables, which is the one that the caller passed when there is one,
  holds what counting all the works of the pages before the failure leaves in it: for a
  dictionary that fits the type, the seed with the selected lists of these works counted.
  A call in which some request is bound to fail always ends.
\<close>

theorem archive_error_propagates:
  "(attributeCounter_run srv self type rating warnings sampleSize sortColumn sortDirection
      startPage waitTime tagCount' = Some r
    \<and> (q, Inl e) \<in> set (fetched (final_locals r)) \<longrightarrow>
      (\<exists>f before s1.
          r = Inl (e, f)
        \<and> attributeCounter srv self type rating warnings sampleSize sortColumn sortDirection
            startPage waitTime tagCount' = Some (Inl e)
        \<and> fetched f = before @ [(q, Inl e)] \<and> all_answered before
        \<and> count_page type (consumed sampleSize f)
             (attributeCounter_start type startPage tagCount') = Inr s1
        \<and> tagCount f = tagCount s1
        \<and> (fits type (tagCount (attributeCounter_start type startPage tagCount')) \<longrightarrow>
             tagCount f = tally type (tagCount (attributeCounter_start type startPage tagCount'))
                            (consumed sampleSize f))))
   \<and> ((\<forall>q. \<exists>e. srv k q = Inl e) \<longrightarrow>
        (\<exists>r. attributeCounter_run srv self type rating warnings sampleSize sortColumn
           sortDirection startPage waitTime tagCount' = Some r))"
proof (intro conjI impI)
  assume a: "attributeCounter_run srv self type rating warnings sampleSize sortColumn
      sortDirection startPage waitTime tagCount' = Some r
    \<and> (q, Inl e) \<in> set (fetched (final_locals r))"
  let ?s0 = "attributeCounter_start type startPage tagCount'"
  from a have run: "attributeCounter_run srv self type rating warnings sampleSize sortColumn
      sortDirection startPage waitTime tagCount' = Some r"
    and err: "(q, Inl e) \<in> set (fetched (final_locals r))" by simp_all
  from run_archive_error [OF run err] obtain f before s1
    where r: "r = Inl (e, f)" and log: "fetched f = before @ [(q, Inl e)]"
      and ans: "all_answered before"
      and c: "count_page type (consumed sampleSize f) ?s0 = Inr s1"
      and t: "tagCount f = tagCount s1"
    by blast
  have ret: "attributeCounter srv self type rating warnings sampleSize sortColumn sortDirection
            startPage waitTime tagCount' = Some (Inl e)"
    using run r by (simp add: attributeCounter_def)
  have "tagCount f = tally type (tagCount ?s0) (consumed sampleSize f)" if "fits type (tagCount ?s0)"
    using count_page_tally [OF that, of "consumed sampleSize f"] c t by auto
  with r log ans c t ret
  have "r = Inl (e, f)
        \<and> attributeCounter srv self type rating warnings sampleSize sortColumn sortDirection
            startPage waitTime tagCount' = Some (Inl e)
        \<and> fetched f = before @ [(q, Inl e)] \<and> all_answered before
        \<and> count_page type (consumed sampleSize f) ?s0 = Inr s1
        \<and> tagCount f = tagCount s1
        \<and> (fits type (tagCount ?s0) \<longrightarrow>
             tagCount f = tally type (tagCount ?s0) (consumed sampleSize f))"
    by simp
  then show "\<exists>f before s1.
          r = Inl (e, f)
        \<and> attributeCounter srv self type rating warnings sampleSize sortColumn sortDirection
            startPage waitTime tagCount' = Some (Inl e)
        \<and> fetched f = before @ [(q, Inl e)] \<and> all_answered before
        \<and> count_page type (consumed sampleSize f) ?s0 = Inr s1
        \<and> tagCount f = tagCount s1
        \<and> (fits type (tagCount ?s0) \<longrightarrow>
             tagCount f = tally type (tagCount ?s0) (consumed sampleSize f))"
    by blast
next
  assume "\<forall>q. \<exists>e. srv k q = Inl e"
  then have "\<And>q. \<exists>e. srv k q = Inl e" by simp
  from run_ends_at_error [where srv = srv and k = k, OF this]
  show "\<exists>r. attributeCounter_run srv self type rating warnings sampleSize sortColumn
           sortDirection startPage waitTime tagCount' = Some r" .
qed

theorem archive_error_propagates_witness:
  "(\<exists>f. attributeCounter_run failing_archive (example_fandom 10) ''tags'' None None (Some 5)
          [] [] 1 0 (Some [''tags'' \<mapsto> [''fluff'' \<mapsto> 3]])
        = Some (Inl (AO3Error ''HTTP 429'', f))
      \<and> tagCount f = [''tags'' \<mapsto> [''fluff'' \<mapsto> 5, ''angst'' \<mapsto> 2]]
      \<and> length (fetched f) = 3)
   \<and> attributeCounter failing_archive (example_fandom 10) ''tags'' None None (Some 5)
          [] [] 1 0 (Some [''tags'' \<mapsto> [''fluff'' \<mapsto> 3]])
        = Some (Inl (AO3Error ''HTTP 429''))"
proof -
  let ?f = "\<lparr>tagCount = [''tags'' \<mapsto> [''fluff'' \<mapsto> 5, ''angst'' \<mapsto> 2]], ficsCounted = 2,
       pageNumber = 3,
       relationshipList = None, characterList = None, tagList = Some [''fluff'', ''angst''],
       fetched = [(search (example_fandom 10) None None None [] [] 1,
           Inr \<lparr>total_results = 10, results = [example_work]\<rparr>),
          (search (example_fandom 10) None None None [] [] 2,
           Inr \<lparr>total_results = 10, results = [example_work]\<rparr>),
          (search (example_fandom 10) None None None [] [] 3, Inl (AO3Error ''HTTP 429''))]\<rparr>"
  note th = archive_error_propagates [of failing_archive "example_fandom 10" "''tags''" None None
      "Some 5" "[]" "[]" 1 0 "Some [''tags'' \<mapsto> [''fluff'' \<mapsto> 3]]"
      "Inl (AO3Error ''HTTP 429'', ?f)" "search (example_fandom 10) None None None [] [] 3"
      "AO3Error ''HTTP 429''" 2, THEN conjunct1, THEN mp]
  have "attributeCounter failing_archive (example_fandom 10) ''tags'' None None (Some 5)
          [] [] 1 0 (Some [''tags'' \<mapsto> [''fluff'' \<mapsto> 3]])
        = Some (Inl (AO3Error ''HTTP 429''))"
    using th failing_run by (auto simp: final_locals_def)
  with failing_run show ?thesis by simp
qed

section \<open>The number of page requests\<close>

text \<open>
  Claim C2 holds for the loop of \<open>fandom.py\<close> (\<open>fandom_py_page_requests\<close> above) and fails
  for the loop of \<open>AO3_analyzer.py\<close>, whose condition is \<open>ficsCounted <= totalWorkCount\<close>: on
  an archive with 20 works on every page, a target of 40 makes this loop request 3 pages and
  count 60 works, a target of 20 makes it request 2 pages and count 40 works, and a target
  of 21 makes it request 2 pages.
\<close>

theorem AO3_analyzer_one_page_too_many:
  "requests_made_A (AO3_analyzer_attributeCounter_run twenty_archive (example_fandom 100)
      ''tags'' None None (Some 40) [] []) = Some 3
   \<and> works_counted_A (AO3_analyzer_attributeCounter_run twenty_archive (example_fandom 100)
      ''tags'' None None (Some 40) [] []) = Some 60
   \<and> requests_made_A (AO3_analyzer_attributeCounter_run twenty_archive (example_fandom 100)
      ''tags'' None None (Some 20) [] []) = Some 2
   \<and> works_counted_A (AO3_analyzer_attributeCounter_run twenty_archive (example_fandom 100)
      ''tags'' None None (Some 20) [] []) = Some 40
   \<and> requests_made_A (AO3_analyzer_attributeCounter_run twenty_archive (example_fandom 100)
      ''tags'' None None (Some 21) [] []) = Some 2"
proof -
  have pages: "\<forall>i q. \<exists>p. twenty_archive i q = Inr p \<and> length (results p) = 20"
    by (simp add: twenty_archive_def)
  from AO3_analyzer_page_requests [OF pages, of 40 "example_fandom 100" "''tags''" None None "[]" "[]"]
    AO3_analyzer_page_requests [OF pages, of 20 "example_fandom 100" "''tags''" None None "[]" "[]"]
    AO3_analyzer_page_requests [OF pages, of 21 "example_fandom 100" "''tags''" None None "[]" "[]"]
  show ?thesis
    by (auto simp: requests_made_A_def works_counted_A_def final_locals_A_def)
qed

text \<open>
  Claim C3 holds for the loop of \<open>fandom.py\<close> (\<open>fandom_py_zero_target\<close> above) and fails
  for \<open>AO3_analyzer.py\<close>. With a sample size of zero its loop requests a page: on an archive
  without works the call never returns, and on an archive with one work on every page it
  makes one request and returns a table that is not empty. Without a sample size the call
  on an archive with total zero ends with \<open>UnboundLocalError\<close> and returns no table.
\<close>

theorem AO3_analyzer_zero_target:
  "AO3_analyzer_attributeCounter_run empty_archive (example_fandom 0) ''tags'' None None (Some 0)
     [] [] = None
   \<and> requests_made_A (AO3_analyzer_attributeCounter_run one_work_archive (example_fandom 1)
       ''tags'' None None (Some 0) [] []) = Some 1
   \<and> AO3_analyzer_attributeCounter one_work_archive (example_fandom 1) ''tags'' None None (Some 0)
       [] [] = Some (Inr [''fluff'' \<mapsto> 1, ''angst'' \<mapsto> 1])
   \<and> AO3_analyzer_attributeCounter empty_archive (example_fandom 0) ''tags'' None None None
       [] [] = Some (Inl UnboundLocalError)"
proof -
  have "\<forall>i q. \<exists>p. empty_archive i q = Inr p \<and> results p = []"
    by (simp add: empty_archive_def)
  from AO3_analyzer_never_returns [OF this, of 0]
  have a: "AO3_analyzer_attributeCounter_run empty_archive (example_fandom 0) ''tags'' None None
      (Some 0) [] [] = None" by simp
  have b: "AO3_analyzer_attributeCounter_run one_work_archive (example_fandom 1) ''tags'' None None
      (Some 0) [] [] =
      Some (Inr \<lparr>tagCount_A = [''fluff'' \<mapsto> 1, ''angst'' \<mapsto> 1], ficsCounted_A = 1,
        pageNumber_A = 2,
        fetched_A = [(AO3_analyzer_Search (example_fandom 1) None None [] [] 1,
                    Inr \<lparr>total_results = 1, results = [example_work]\<rparr>)]\<rparr>)"
    by (simp add: AO3_analyzer_attributeCounter_run_def AO3_analyzer_attributeCounter_start_def
        AO3_analyzer_attributeCounter_loop.simps AO3_analyzer_attributeCounter_body_def
        fetch_A_def update_def Let_def one_work_archive_def count_work_A_eq example_work_def
        setdefault_def)
  have c: "AO3_analyzer_attributeCounter empty_archive (example_fandom 0) ''tags'' None None None
       [] [] = Some (Inl UnboundLocalError)"
    by (simp add: AO3_analyzer_attributeCounter_def AO3_analyzer_attributeCounter_run_def
        AO3_analyzer_attributeCounter_start_def fetch_A_def update_def Let_def empty_archive_def)
  from a b c show ?thesis
    by (simp add: requests_made_A_def final_locals_A_def AO3_analyzer_attributeCounter_def)
qed

end
